theory Spec2Isabelle
  imports Main
begin

section \<open>JavaScript values held by the session code\<close>

text \<open>
  The cached user is written to a cookie with \<^verbatim>\<open>JSON.stringify\<close> and read back with
  \<^verbatim>\<open>JSON.parse\<close>, and the code tests it with \<^verbatim>\<open>!!\<close>, \<^verbatim>\<open>?.role\<close> and \<^verbatim>\<open>.role\<close>.
  What \<^verbatim>\<open>JSON.parse\<close> returns is not checked against the \<^verbatim>\<open>AdminUser\<close> interface, so a
  user is modelled as the JavaScript value it is at run time. Numbers are integers here:
  the code only ever asks whether a value is falsy.
\<close>

datatype json =
    JNull
  | JBool bool
  | JNumber int
  | JString string
  | JArray "json list"
  | JObject "(string \<times> json) list"

text \<open>\<^verbatim>\<open>!!v\<close>: \<^verbatim>\<open>null\<close>, \<^verbatim>\<open>false\<close>, \<^verbatim>\<open>0\<close> and \<^verbatim>\<open>""\<close> are falsy, every array and object is truthy.\<close>

fun truthy :: "json \<Rightarrow> bool" where
  "truthy JNull = False"
| "truthy (JBool b) = b"
| "truthy (JNumber n) = (n \<noteq> 0)"
| "truthy (JString s) = (s \<noteq> [])"
| "truthy (JArray xs) = True"
| "truthy (JObject kvs) = True"

text \<open>
  \<^verbatim>\<open>v?.k\<close> for a key that is no built-in property: the stored value on an object that has
  the key, \<^verbatim>\<open>undefined\<close> (\<open>None\<close>) on every other value, \<^verbatim>\<open>null\<close> included.
\<close>

fun member :: "json \<Rightarrow> string \<Rightarrow> json option" where
  "member (JObject kvs) k = map_of kvs k"
| "member v k = None"

text \<open>\<^verbatim>\<open>user?.role === 'admin'\<close>\<close>

definition role_is_admin :: "json \<Rightarrow> bool" where
  "role_is_admin u = (member u ''role'' = Some (JString ''admin''))"

subsection \<open>The \<^verbatim>\<open>AdminUser\<close> interface\<close>

text \<open>
  A value has the shape of \<^verbatim>\<open>interface AdminUser\<close> when it is an object whose required
  members are present with the declared types and whose optional members, where present,
  have theirs.
\<close>

definition has_string :: "(string \<times> json) list \<Rightarrow> string \<Rightarrow> bool" where
  "has_string kvs k = (case map_of kvs k of Some (JString s) \<Rightarrow> True | _ \<Rightarrow> False)"

definition has_boolean :: "(string \<times> json) list \<Rightarrow> string \<Rightarrow> bool" where
  "has_boolean kvs k = (case map_of kvs k of Some (JBool b) \<Rightarrow> True | _ \<Rightarrow> False)"

definition opt_string :: "(string \<times> json) list \<Rightarrow> string \<Rightarrow> bool" where
  "opt_string kvs k =
     (case map_of kvs k of None \<Rightarrow> True | Some (JString s) \<Rightarrow> True | _ \<Rightarrow> False)"

definition opt_address :: "(string \<times> json) list \<Rightarrow> bool" where
  "opt_address kvs =
     (case map_of kvs ''address'' of
        None \<Rightarrow> True
      | Some (JObject a) \<Rightarrow>
          distinct (map fst a) \<and> opt_string a ''street'' \<and> opt_string a ''city'' \<and>
          opt_string a ''state'' \<and> opt_string a ''country'' \<and> opt_string a ''zipCode''
      | _ \<Rightarrow> False)"

definition is_AdminUser :: "json \<Rightarrow> bool" where
  "is_AdminUser u =
     (case u of
        JObject kvs \<Rightarrow>
          distinct (map fst kvs) \<and>
          has_string kvs ''id'' \<and> has_string kvs ''email'' \<and>
          has_string kvs ''firstName'' \<and> has_string kvs ''lastName'' \<and>
          has_string kvs ''role'' \<and>
          has_boolean kvs ''isEmailVerified'' \<and> has_boolean kvs ''isPhoneVerified'' \<and>
          has_boolean kvs ''isActive'' \<and>
          opt_string kvs ''phone'' \<and> opt_string kvs ''dateOfBirth'' \<and>
          opt_string kvs ''gender'' \<and> opt_string kvs ''profilePicture'' \<and>
          opt_address kvs \<and>
          has_string kvs ''createdAt'' \<and> has_string kvs ''updatedAt'' \<and>
          opt_string kvs ''lastLogin''
      | _ \<Rightarrow> False)"

section \<open>The browser: cookie jar and location\<close>

text \<open>
  \<^verbatim>\<open>js-cookie\<close> is a library, not code of this repository. Its jar is a finite map from
  cookie names to cookies: \<^verbatim>\<open>Cookies.set\<close> writes, \<^verbatim>\<open>Cookies.get\<close> returns the content or
  \<^verbatim>\<open>undefined\<close>, \<^verbatim>\<open>Cookies.remove\<close> deletes and is silent on a missing name. The
  attributes the code passes are kept with the cookie; expiry over real time and the
  browser's size limit are not modelled.
\<close>

record cookie =
  content :: string
  expires :: nat
  secure :: bool
  sameSite :: string

type_synonym cookie_jar = "string \<rightharpoonup> cookie"

definition Cookies_set :: "string \<Rightarrow> string \<Rightarrow> nat \<Rightarrow> cookie_jar \<Rightarrow> cookie_jar" where
  "Cookies_set k v days jar =
     jar(k \<mapsto> \<lparr>content = v, expires = days, secure = True, sameSite = ''strict''\<rparr>)"

definition Cookies_get :: "string \<Rightarrow> cookie_jar \<Rightarrow> string option" where
  "Cookies_get k jar = map_option content (jar k)"

definition Cookies_remove :: "string \<Rightarrow> cookie_jar \<Rightarrow> cookie_jar" where
  "Cookies_remove k jar = jar(k := None)"

text \<open>\<open>href\<close> is \<^verbatim>\<open>window.location.href\<close>.\<close>

record browser =
  cookies :: cookie_jar
  href :: string

section \<open>The API client (\<^verbatim>\<open>api.ts\<close>)\<close>

text \<open>
  The backend is outside the repository: what it answers to a request is an input of
  every operation. A request is fulfilled with the response body, or rejected: without
  any response (network failure, the 10 s timeout), or with a response that carries a
  status outside 2xx and, when its body has one, the \<^verbatim>\<open>error\<close> member.
\<close>

datatype failure =
    NoResponse
  | ErrorResponse nat "string option"

datatype 'a outcome = Fulfilled 'a | Rejected failure

text \<open>\<^verbatim>\<open>error.response?.status\<close>\<close>

fun status :: "failure \<Rightarrow> nat option" where
  "status NoResponse = None"
| "status (ErrorResponse st e) = Some st"

text \<open>\<^verbatim>\<open>error.response?.data?.error || fallback\<close>: an absent or empty message is falsy.\<close>

fun error_or :: "failure \<Rightarrow> string \<Rightarrow> string" where
  "error_or NoResponse fallback = fallback"
| "error_or (ErrorResponse st None) fallback = fallback"
| "error_or (ErrorResponse st (Some e)) fallback = (if e = [] then fallback else e)"

text \<open>
  The response interceptor's error handler. The request interceptor only reads the
  \<^verbatim>\<open>admin_token\<close> cookie to set a header of the request and changes nothing here.
\<close>

definition response_error_interceptor :: "failure \<Rightarrow> browser \<Rightarrow> browser" where
  "response_error_interceptor e b =
     (if status e = Some 401
      then b\<lparr>cookies := Cookies_remove ''admin_user'' (Cookies_remove ''admin_token'' (cookies b)),
             href := ''/auth/login''\<rparr>
      else b)"

text \<open>
  One call of \<^verbatim>\<open>api.get\<close>, \<^verbatim>\<open>api.post\<close> or \<^verbatim>\<open>api.put\<close>: the caller receives the outcome
  after the interceptor has run.
\<close>

definition api_request :: "'a outcome \<Rightarrow> browser \<Rightarrow> 'a outcome \<times> browser" where
  "api_request r b =
     (case r of
        Fulfilled x \<Rightarrow> (Fulfilled x, b)
      | Rejected e \<Rightarrow> (Rejected e, response_error_interceptor e b))"

section \<open>The session manager (\<^verbatim>\<open>class AuthService\<close>)\<close>

text \<open>
  A thrown \<^verbatim>\<open>Error(msg)\<close> is \<open>Inl msg\<close>. Every operation takes the browser and returns
  it as the operation leaves it. \<^verbatim>\<open>JSON.stringify\<close> and \<^verbatim>\<open>JSON.parse\<close> are built-ins of the
  platform and are parameters: \<open>parse s = None\<close> is the \<^verbatim>\<open>SyntaxError\<close> it throws.
\<close>

type_synonym 'a result = "string + 'a"

record ApiMessage =
  success :: bool
  message :: string

record AuthData =
  data_user :: json
  data_token :: string
  data_refreshToken :: string

record AuthResponse = ApiMessage +
  data :: AuthData

definition TOKEN_KEY :: string where "TOKEN_KEY = ''admin_token''"
definition USER_KEY :: string where "USER_KEY = ''admin_user''"
definition REFRESH_TOKEN_KEY :: string where "REFRESH_TOKEN_KEY = ''admin_refresh_token''"

text \<open>\<^verbatim>\<open>x || null\<close> on what \<^verbatim>\<open>Cookies.get\<close> returns: the empty string is falsy.\<close>

definition or_null :: "string option \<Rightarrow> string option" where
  "or_null x = (case x of None \<Rightarrow> None | Some v \<Rightarrow> if v = [] then None else Some v)"

definition setToken :: "string \<Rightarrow> browser \<Rightarrow> browser" where
  "setToken token b = b\<lparr>cookies := Cookies_set TOKEN_KEY token 7 (cookies b)\<rparr>"

definition getToken :: "browser \<Rightarrow> string option" where
  "getToken b = or_null (Cookies_get TOKEN_KEY (cookies b))"

definition setRefreshToken :: "string \<Rightarrow> browser \<Rightarrow> browser" where
  "setRefreshToken refreshToken b =
     b\<lparr>cookies := Cookies_set REFRESH_TOKEN_KEY refreshToken 30 (cookies b)\<rparr>"

definition getRefreshToken :: "browser \<Rightarrow> string option" where
  "getRefreshToken b = or_null (Cookies_get REFRESH_TOKEN_KEY (cookies b))"

definition setUser :: "(json \<Rightarrow> string) \<Rightarrow> json \<Rightarrow> browser \<Rightarrow> browser" where
  "setUser JSON_stringify user b =
     b\<lparr>cookies := Cookies_set USER_KEY (JSON_stringify user) 7 (cookies b)\<rparr>"

definition getUser :: "(string \<Rightarrow> json option) \<Rightarrow> browser \<Rightarrow> json" where
  "getUser JSON_parse b =
     (case Cookies_get USER_KEY (cookies b) of
        None \<Rightarrow> JNull
      | Some userStr \<Rightarrow>
          if userStr = [] then JNull
          else (case JSON_parse userStr of None \<Rightarrow> JNull | Some v \<Rightarrow> v))"

definition clearAuth :: "browser \<Rightarrow> browser" where
  "clearAuth b =
     b\<lparr>cookies := Cookies_remove REFRESH_TOKEN_KEY
                    (Cookies_remove USER_KEY (Cookies_remove TOKEN_KEY (cookies b)))\<rparr>"

text \<open>\<^verbatim>\<open>!!(token && user)\<close>\<close>

definition isAuthenticated :: "(string \<Rightarrow> json option) \<Rightarrow> browser \<Rightarrow> bool" where
  "isAuthenticated JSON_parse b =
     (case getToken b of None \<Rightarrow> False | Some token \<Rightarrow> truthy (getUser JSON_parse b))"

definition isAdmin :: "(string \<Rightarrow> json option) \<Rightarrow> browser \<Rightarrow> bool" where
  "isAdmin JSON_parse b = role_is_admin (getUser JSON_parse b)"

definition login ::
  "(json \<Rightarrow> string) \<Rightarrow> AuthResponse outcome \<Rightarrow> browser \<Rightarrow> AuthResponse result \<times> browser" where
  "login JSON_stringify r b =
     (case api_request r b of
        (Fulfilled response, b1) \<Rightarrow>
          (Inr response,
           setUser JSON_stringify (data_user (data response))
             (setRefreshToken (data_refreshToken (data response))
               (setToken (data_token (data response)) b1)))
      | (Rejected e, b1) \<Rightarrow> (Inl (error_or e ''Login failed''), b1))"

definition register ::
  "(json \<Rightarrow> string) \<Rightarrow> AuthResponse outcome \<Rightarrow> browser \<Rightarrow> AuthResponse result \<times> browser" where
  "register JSON_stringify r b =
     (case api_request r b of
        (Fulfilled response, b1) \<Rightarrow>
          (Inr response,
           setUser JSON_stringify (data_user (data response))
             (setRefreshToken (data_refreshToken (data response))
               (setToken (data_token (data response)) b1)))
      | (Rejected e, b1) \<Rightarrow> (Inl (error_or e ''Registration failed''), b1))"

text \<open>\<^verbatim>\<open>try { await api.post(..) } catch { console.error(..) } finally { this.clearAuth() }\<close>\<close>

definition logout :: "unit outcome \<Rightarrow> browser \<Rightarrow> unit result \<times> browser" where
  "logout r b =
     (case api_request r b of
        (Fulfilled x, b1) \<Rightarrow> (Inr (), clearAuth b1)
      | (Rejected e, b1) \<Rightarrow> (Inr (), clearAuth b1))"

definition forgotPassword :: "ApiMessage outcome \<Rightarrow> browser \<Rightarrow> ApiMessage result \<times> browser" where
  "forgotPassword r b =
     (case api_request r b of
        (Fulfilled response, b1) \<Rightarrow> (Inr response, b1)
      | (Rejected e, b1) \<Rightarrow> (Inl (error_or e ''Failed to send reset email''), b1))"

definition resetPassword :: "ApiMessage outcome \<Rightarrow> browser \<Rightarrow> ApiMessage result \<times> browser" where
  "resetPassword r b =
     (case api_request r b of
        (Fulfilled response, b1) \<Rightarrow> (Inr response, b1)
      | (Rejected e, b1) \<Rightarrow> (Inl (error_or e ''Failed to reset password''), b1))"

text \<open>
  The \<^verbatim>\<open>catch\<close> of \<^verbatim>\<open>refreshToken\<close> covers the \<^verbatim>\<open>throw\<close> for a missing refresh token and
  the rejected request alike.
\<close>

definition refreshToken :: "string outcome \<Rightarrow> browser \<Rightarrow> string result \<times> browser" where
  "refreshToken r b =
     (case getRefreshToken b of
        None \<Rightarrow> (Inl ''Token refresh failed'', clearAuth b)
      | Some refresh_token \<Rightarrow>
          (case api_request r b of
             (Fulfilled token, b1) \<Rightarrow> (Inr token, setToken token b1)
           | (Rejected e, b1) \<Rightarrow> (Inl ''Token refresh failed'', clearAuth b1)))"

definition getCurrentUser ::
  "(json \<Rightarrow> string) \<Rightarrow> json outcome \<Rightarrow> browser \<Rightarrow> json result \<times> browser" where
  "getCurrentUser JSON_stringify r b =
     (case api_request r b of
        (Fulfilled user, b1) \<Rightarrow> (Inr user, setUser JSON_stringify user b1)
      | (Rejected e, b1) \<Rightarrow> (Inl (error_or e ''Failed to get user profile''), b1))"

definition updateProfile ::
  "(json \<Rightarrow> string) \<Rightarrow> json outcome \<Rightarrow> browser \<Rightarrow> json result \<times> browser" where
  "updateProfile JSON_stringify r b =
     (case api_request r b of
        (Fulfilled user, b1) \<Rightarrow> (Inr user, setUser JSON_stringify user b1)
      | (Rejected e, b1) \<Rightarrow> (Inl (error_or e ''Failed to update profile''), b1))"

section \<open>The session context (\<^verbatim>\<open>AuthProvider\<close>)\<close>

text \<open>
  The provider's React state (\<^verbatim>\<open>user\<close>, \<^verbatim>\<open>isLoading\<close>, \<^verbatim>\<open>error\<close>) and, in \<open>pushed\<close>, the
  paths handed to \<^verbatim>\<open>router.push\<close>, oldest first. Operations run one at a time, each to
  its end; \<^verbatim>\<open>console.error\<close> is not recorded.
\<close>

record provider_state =
  user :: json
  isLoading :: bool
  error :: "string option"
  pushed :: "string list"

definition initial_state :: provider_state where
  "initial_state = \<lparr>user = JNull, isLoading = True, error = None, pushed = []\<rparr>"

text \<open>The flags of the context value: \<^verbatim>\<open>!!user\<close> and \<^verbatim>\<open>user?.role === 'admin'\<close>.\<close>

definition provided_isAuthenticated :: "provider_state \<Rightarrow> bool" where
  "provided_isAuthenticated s = truthy (user s)"

definition provided_isAdmin :: "provider_state \<Rightarrow> bool" where
  "provided_isAdmin s = role_is_admin (user s)"

text \<open>
  \<^verbatim>\<open>initAuth\<close>, run once when the provider mounts. Nothing inside the outer \<^verbatim>\<open>try\<close> can
  throw past the inner one, so the outer \<^verbatim>\<open>catch\<close> has no branch here.
\<close>

definition initAuth ::
  "(string \<Rightarrow> json option) \<Rightarrow> (json \<Rightarrow> string) \<Rightarrow> json outcome \<Rightarrow>
   browser \<Rightarrow> provider_state \<Rightarrow> browser \<times> provider_state" where
  "initAuth JSON_parse JSON_stringify r b s =
     (let s1 = s\<lparr>isLoading := True\<rparr> in
      if isAuthenticated JSON_parse b then
        (let currentUser = getUser JSON_parse b in
         if truthy currentUser then
           (let s2 = s1\<lparr>user := currentUser\<rparr> in
            case getCurrentUser JSON_stringify r b of
              (Inr freshUser, b1) \<Rightarrow> (b1, s2\<lparr>user := freshUser, isLoading := False\<rparr>)
            | (Inl e, b1) \<Rightarrow> (clearAuth b1, s2\<lparr>user := JNull, isLoading := False\<rparr>))
         else (b, s1\<lparr>isLoading := False\<rparr>))
      else (b, s1\<lparr>isLoading := False\<rparr>))"

text \<open>
  Reading \<^verbatim>\<open>.role\<close> of \<^verbatim>\<open>null\<close> throws a \<^verbatim>\<open>TypeError\<close>, which the \<^verbatim>\<open>catch\<close> of the
  context's \<^verbatim>\<open>login\<close> records and rethrows like any other error. Its message is the
  engine's; this is V8's.
\<close>

definition TypeError_role_of_null :: string where
  "TypeError_role_of_null = ''Cannot read properties of null (reading 'role')''"

definition access_denied :: string where
  "access_denied = ''Access denied. Admin privileges required.''"

text \<open>
  The context's \<^verbatim>\<open>login\<close>. It awaits \<^verbatim>\<open>authService.login\<close> and, for a user that is not
  an admin, \<^verbatim>\<open>authService.logout\<close>: \<open>r_login\<close> and \<open>r_logout\<close> are the backend's answers
  to the two requests.
\<close>

definition AuthProvider_login ::
  "(json \<Rightarrow> string) \<Rightarrow> AuthResponse outcome \<Rightarrow> unit outcome \<Rightarrow>
   browser \<Rightarrow> provider_state \<Rightarrow> unit result \<times> browser \<times> provider_state" where
  "AuthProvider_login JSON_stringify r_login r_logout b s =
     (let s1 = s\<lparr>isLoading := True, error := None\<rparr> in
      case login JSON_stringify r_login b of
        (Inl msg, b1) \<Rightarrow> (Inl msg, b1, s1\<lparr>error := Some msg, isLoading := False\<rparr>)
      | (Inr response, b1) \<Rightarrow>
          (let userData = data_user (data response) in
           if userData = JNull then
             (Inl TypeError_role_of_null, b1,
              s1\<lparr>error := Some TypeError_role_of_null, isLoading := False\<rparr>)
           else if member userData ''role'' \<noteq> Some (JString ''admin'') then
             (case logout r_logout b1 of
                (Inl msg, b2) \<Rightarrow> (Inl msg, b2, s1\<lparr>error := Some msg, isLoading := False\<rparr>)
              | (Inr x, b2) \<Rightarrow>
                  (Inl access_denied, b2, s1\<lparr>error := Some access_denied, isLoading := False\<rparr>))
           else
             (Inr (), b1,
              s1\<lparr>user := userData, pushed := pushed s1 @ [''/dashboard''], isLoading := False\<rparr>)))"

definition AuthProvider_register ::
  "(json \<Rightarrow> string) \<Rightarrow> AuthResponse outcome \<Rightarrow>
   browser \<Rightarrow> provider_state \<Rightarrow> unit result \<times> browser \<times> provider_state" where
  "AuthProvider_register JSON_stringify r b s =
     (let s1 = s\<lparr>isLoading := True, error := None\<rparr> in
      case register JSON_stringify r b of
        (Inl msg, b1) \<Rightarrow> (Inl msg, b1, s1\<lparr>error := Some msg, isLoading := False\<rparr>)
      | (Inr response, b1) \<Rightarrow>
          (Inr (), b1,
           s1\<lparr>user := data_user (data response), pushed := pushed s1 @ [''/dashboard''],
              isLoading := False\<rparr>))"

text \<open>The context's \<^verbatim>\<open>logout\<close>: its \<^verbatim>\<open>catch\<close> only logs, so it never rejects.\<close>

definition AuthProvider_logout ::
  "unit outcome \<Rightarrow> browser \<Rightarrow> provider_state \<Rightarrow> unit result \<times> browser \<times> provider_state" where
  "AuthProvider_logout r b s =
     (let s1 = s\<lparr>isLoading := True\<rparr> in
      case logout r b of
        (Inl msg, b1) \<Rightarrow> (Inr (), b1, s1\<lparr>isLoading := False\<rparr>)
      | (Inr x, b1) \<Rightarrow>
          (Inr (), b1,
           s1\<lparr>user := JNull, pushed := pushed s1 @ [''/auth/login''], isLoading := False\<rparr>))"

definition AuthProvider_updateProfile ::
  "(json \<Rightarrow> string) \<Rightarrow> json outcome \<Rightarrow>
   browser \<Rightarrow> provider_state \<Rightarrow> unit result \<times> browser \<times> provider_state" where
  "AuthProvider_updateProfile JSON_stringify r b s =
     (let s1 = s\<lparr>error := None\<rparr> in
      case updateProfile JSON_stringify r b of
        (Inl msg, b1) \<Rightarrow> (Inl msg, b1, s1\<lparr>error := Some msg\<rparr>)
      | (Inr updatedUser, b1) \<Rightarrow> (Inr (), b1, s1\<lparr>user := updatedUser\<rparr>))"

definition clearError :: "provider_state \<Rightarrow> provider_state" where
  "clearError s = s\<lparr>error := None\<rparr>"

section \<open>A JSON codec for running the model\<close>

text \<open>
  The theorems below hold for whatever \<^verbatim>\<open>JSON.stringify\<close> and \<^verbatim>\<open>JSON.parse\<close> are. To run the
  model on concrete stores, this section gives an executable codec for the JSON texts used
  there: compact output as \<^verbatim>\<open>JSON.stringify\<close> writes it; input with optional white space,
  objects, arrays, strings with the two-character escapes and \<^verbatim>\<open>\u00XX\<close>, integers,
  \<^verbatim>\<open>true\<close>, \<^verbatim>\<open>false\<close> and \<^verbatim>\<open>null\<close>. Fractions, exponents and characters beyond 8 bits are
  outside it. The parser's fuel bounds the nesting and the number of members read.
\<close>

definition is_ws :: "char \<Rightarrow> bool" where
  "is_ws c = (c = CHR '' '' \<or> c = CHR 0x09 \<or> c = CHR 0x0A \<or> c = CHR 0x0D)"

fun skip_ws :: "string \<Rightarrow> string" where
  "skip_ws [] = []"
| "skip_ws (c # cs) = (if is_ws c then skip_ws cs else c # cs)"

definition hex_digit :: "nat \<Rightarrow> char" where
  "hex_digit n = (if n < 10 then char_of (48 + n) else char_of (87 + n))"

fun escape_char :: "char \<Rightarrow> string" where
  "escape_char c =
     (if c = CHR 0x22 then [CHR 0x5C, CHR 0x22]
      else if c = CHR 0x5C then [CHR 0x5C, CHR 0x5C]
      else if c = CHR 0x08 then [CHR 0x5C, CHR ''b'']
      else if c = CHR 0x0C then [CHR 0x5C, CHR ''f'']
      else if c = CHR 0x0A then [CHR 0x5C, CHR ''n'']
      else if c = CHR 0x0D then [CHR 0x5C, CHR ''r'']
      else if c = CHR 0x09 then [CHR 0x5C, CHR ''t'']
      else if of_char c < (32::nat) then
        [CHR 0x5C, CHR ''u'', CHR ''0'', CHR ''0'',
         hex_digit (of_char c div 16), hex_digit (of_char c mod 16)]
      else [c])"

definition quote :: "string \<Rightarrow> string" where
  "quote s = CHR 0x22 # concat (map escape_char s) @ [CHR 0x22]"

fun digits :: "nat \<Rightarrow> string" where
  "digits n = (if n < 10 then [char_of (48 + n)] else digits (n div 10) @ [char_of (48 + n mod 10)])"

fun join :: "string list \<Rightarrow> string" where
  "join [] = []"
| "join [x] = x"
| "join (x # y # zs) = x @ CHR '','' # join (y # zs)"

fun json_stringify :: "json \<Rightarrow> string" where
  "json_stringify JNull = ''null''"
| "json_stringify (JBool b) = (if b then ''true'' else ''false'')"
| "json_stringify (JNumber n) = (if n < 0 then CHR ''-'' # digits (nat (- n)) else digits (nat n))"
| "json_stringify (JString s) = quote s"
| "json_stringify (JArray xs) = CHR ''['' # join (map json_stringify xs) @ '']''"
| "json_stringify (JObject kvs) =
     CHR ''{'' # join (map (\<lambda>kv. quote (fst kv) @ CHR '':'' # json_stringify (snd kv)) kvs) @ ''}''"

definition unescape :: "char \<Rightarrow> char option" where
  "unescape e =
     (if e = CHR 0x22 \<or> e = CHR 0x5C \<or> e = CHR ''/'' then Some e
      else if e = CHR ''b'' then Some (CHR 0x08)
      else if e = CHR ''f'' then Some (CHR 0x0C)
      else if e = CHR ''n'' then Some (CHR 0x0A)
      else if e = CHR ''r'' then Some (CHR 0x0D)
      else if e = CHR ''t'' then Some (CHR 0x09)
      else None)"

definition hex_value :: "char \<Rightarrow> nat option" where
  "hex_value c =
     (let n = of_char c :: nat in
      if 48 \<le> n \<and> n \<le> 57 then Some (n - 48)
      else if 97 \<le> n \<and> n \<le> 102 then Some (n - 87)
      else if 65 \<le> n \<and> n \<le> 70 then Some (n - 55)
      else None)"

definition hex4 :: "char \<Rightarrow> char \<Rightarrow> char \<Rightarrow> char \<Rightarrow> char option" where
  "hex4 a b c d =
     (case (hex_value a, hex_value b, hex_value c, hex_value d) of
        (Some w, Some x, Some y, Some z) \<Rightarrow>
          if w = 0 \<and> x = 0 then Some (char_of (16 * y + z)) else None
      | _ \<Rightarrow> None)"

fun string_body :: "string \<Rightarrow> (string \<times> string) option" where
  "string_body [] = None"
| "string_body (c # cs) =
     (if c = CHR 0x22 then Some ([], cs)
      else if c = CHR 0x5C then
        (case cs of
           [] \<Rightarrow> None
         | e # cs1 \<Rightarrow>
             if e = CHR ''u'' then
               (case cs1 of
                  h1 # h2 # h3 # h4 # cs2 \<Rightarrow>
                    (case hex4 h1 h2 h3 h4 of
                       None \<Rightarrow> None
                     | Some d \<Rightarrow> map_option (\<lambda>p. (d # fst p, snd p)) (string_body cs2))
                | _ \<Rightarrow> None)
             else
               (case unescape e of
                  None \<Rightarrow> None
                | Some d \<Rightarrow> map_option (\<lambda>p. (d # fst p, snd p)) (string_body cs1)))
      else if of_char c < (32::nat) then None
      else map_option (\<lambda>p. (c # fst p, snd p)) (string_body cs))"

definition is_digit :: "char \<Rightarrow> bool" where
  "is_digit c = (48 \<le> (of_char c :: nat) \<and> (of_char c :: nat) \<le> 57)"

definition number_of :: "string \<Rightarrow> (int \<times> string) option" where
  "number_of cs =
     (let ds = takeWhile is_digit cs; r = dropWhile is_digit cs in
      if ds = [] \<or> (hd ds = CHR ''0'' \<and> length ds > 1) then None
      else Some (int (foldl (\<lambda>a c. 10 * a + (of_char c - 48)) 0 ds), r))"

fun parse_value :: "nat \<Rightarrow> string \<Rightarrow> (json \<times> string) option"
and parse_elements :: "nat \<Rightarrow> string \<Rightarrow> (json list \<times> string) option"
and parse_members :: "nat \<Rightarrow> string \<Rightarrow> ((string \<times> json) list \<times> string) option"
where
  "parse_value 0 cs = None"
| "parse_value (Suc n) cs =
     (case skip_ws cs of
        [] \<Rightarrow> None
      | c # r \<Rightarrow>
          if c = CHR ''{'' then
            (case skip_ws r of
               [] \<Rightarrow> None
             | d # r1 \<Rightarrow>
                 if d = CHR ''}'' then Some (JObject [], r1)
                 else map_option (\<lambda>p. (JObject (fst p), snd p)) (parse_members n r))
          else if c = CHR ''['' then
            (case skip_ws r of
               [] \<Rightarrow> None
             | d # r1 \<Rightarrow>
                 if d = CHR '']'' then Some (JArray [], r1)
                 else map_option (\<lambda>p. (JArray (fst p), snd p)) (parse_elements n r))
          else if c = CHR 0x22 then map_option (\<lambda>p. (JString (fst p), snd p)) (string_body r)
          else if c = CHR ''-'' then map_option (\<lambda>p. (JNumber (- fst p), snd p)) (number_of r)
          else if is_digit c then map_option (\<lambda>p. (JNumber (fst p), snd p)) (number_of (c # r))
          else if take 4 (c # r) = ''true'' then Some (JBool True, drop 4 (c # r))
          else if take 5 (c # r) = ''false'' then Some (JBool False, drop 5 (c # r))
          else if take 4 (c # r) = ''null'' then Some (JNull, drop 4 (c # r))
          else None)"
| "parse_elements 0 cs = None"
| "parse_elements (Suc n) cs =
     (case parse_value n cs of
        None \<Rightarrow> None
      | Some (v, r) \<Rightarrow>
          (case skip_ws r of
             [] \<Rightarrow> None
           | c # r1 \<Rightarrow>
               if c = CHR '']'' then Some ([v], r1)
               else if c = CHR '','' then map_option (\<lambda>p. (v # fst p, snd p)) (parse_elements n r1)
               else None))"
| "parse_members 0 cs = None"
| "parse_members (Suc n) cs =
     (case skip_ws cs of
        [] \<Rightarrow> None
      | q # r \<Rightarrow>
          if q \<noteq> CHR 0x22 then None
          else
            (case string_body r of
               None \<Rightarrow> None
             | Some (k, r1) \<Rightarrow>
                 (case skip_ws r1 of
                    [] \<Rightarrow> None
                  | c # r2 \<Rightarrow>
                      if c \<noteq> CHR '':'' then None
                      else
                        (case parse_value n r2 of
                           None \<Rightarrow> None
                         | Some (v, r3) \<Rightarrow>
                             (case skip_ws r3 of
                                [] \<Rightarrow> None
                              | d # r4 \<Rightarrow>
                                  if d = CHR ''}'' then Some ([(k, v)], r4)
                                  else if d = CHR '','' then
                                    map_option (\<lambda>p. ((k, v) # fst p, snd p)) (parse_members n r4)
                                  else None)))))"

definition json_parse :: "string \<Rightarrow> json option" where
  "json_parse s =
     (case parse_value (2 * length s + 2) s of
        None \<Rightarrow> None
      | Some (v, r) \<Rightarrow> if skip_ws r = [] then Some v else None)"

section \<open>Sample stores and responses\<close>

definition sample_customer :: json where
  "sample_customer =
     JObject [(''id'', JString ''u7''), (''email'', JString ''c@shop.example''),
       (''firstName'', JString ''Chala''), (''lastName'', JString ''Bekele''),
       (''role'', JString ''customer''), (''isEmailVerified'', JBool True),
       (''isPhoneVerified'', JBool False), (''isActive'', JBool True),
       (''address'', JObject [(''city'', JString ''Adama'')]),
       (''createdAt'', JString ''2024-01-01''), (''updatedAt'', JString ''2024-01-02'')]"

definition sample_admin :: json where
  "sample_admin =
     JObject [(''id'', JString ''u1''), (''email'', JString ''a@shop.example''),
       (''firstName'', JString ''Abeba''), (''lastName'', JString ''Tadesse''),
       (''role'', JString ''admin''), (''isEmailVerified'', JBool True),
       (''isPhoneVerified'', JBool True), (''isActive'', JBool True),
       (''phone'', JString ''+1-555-0000''),
       (''createdAt'', JString ''2024-01-01''), (''updatedAt'', JString ''2024-01-02'')]"

definition sample_response :: "json \<Rightarrow> AuthResponse" where
  "sample_response u =
     \<lparr>success = True, message = ''ok'',
      data = \<lparr>data_user = u, data_token = ''tok'', data_refreshToken = ''ref''\<rparr>\<rparr>"

definition empty_browser :: browser where
  "empty_browser = \<lparr>cookies = Map.empty, href = ''/''\<rparr>"

text \<open>The store as a fulfilled \<^verbatim>\<open>login\<close> leaves it.\<close>

definition signed_in :: "json \<Rightarrow> browser" where
  "signed_in u =
     setUser json_stringify u (setRefreshToken ''ref'' (setToken ''tok'' empty_browser))"

text \<open>A store whose user cookie was overwritten by hand with the text \<open>c\<close>.\<close>

definition tampered :: "string \<Rightarrow> browser" where
  "tampered c = (signed_in sample_admin)\<lparr>cookies := Cookies_set USER_KEY c 7 (cookies (signed_in sample_admin))\<rparr>"

section \<open>The codec reads back what it writes\<close>

text \<open>
  For every JSON value the parser returns the value the printer was given: strings by
  undoing each escape, integers digit by digit, arrays and objects by induction on the
  value with fuel that the length of the text covers.
\<close>

declare digits.simps [simp del]

lemma hex_value_hex_digit: "k < 16 \<Longrightarrow> hex_value (hex_digit k) = Some k"
  by (auto simp: hex_value_def hex_digit_def Let_def)

lemma hex4_control:
  "of_char c < (32::nat) \<Longrightarrow>
   hex4 (CHR ''0'') (CHR ''0'') (hex_digit (of_char c div 16)) (hex_digit (of_char c mod 16)) = Some c"
proof -
  assume "of_char c < (32::nat)"
  then have "hex_value (hex_digit (of_char c div 16)) = Some (of_char c div 16)"
    "hex_value (hex_digit (of_char c mod 16)) = Some (of_char c mod 16)"
    by (simp_all add: hex_value_hex_digit)
  moreover have "hex_value (CHR ''0'') = Some 0"
    by (simp add: hex_value_def)
  ultimately show ?thesis
    by (simp add: hex4_def)
qed

lemma string_body_escape:
  "string_body (escape_char c @ cs) = map_option (\<lambda>p. (c # fst p, snd p)) (string_body cs)"
proof -
  consider "c = CHR 0x22" | "c = CHR 0x5C" | "c = CHR 0x08" | "c = CHR 0x0C" | "c = CHR 0x0A"
    | "c = CHR 0x0D" | "c = CHR 0x09"
    | "c \<notin> {CHR 0x22, CHR 0x5C, CHR 0x08, CHR 0x0C, CHR 0x0A, CHR 0x0D, CHR 0x09}"
      "of_char c < (32::nat)"
    | "c \<notin> {CHR 0x22, CHR 0x5C, CHR 0x08, CHR 0x0C, CHR 0x0A, CHR 0x0D, CHR 0x09}"
      "\<not> of_char c < (32::nat)"
    by blast
  then show ?thesis
  proof cases
    case 8
    then show ?thesis by (simp add: hex4_control)
  next
    case 9
    then show ?thesis by simp
  qed (simp_all add: unescape_def)
qed

lemma string_body_quote:
  "string_body (concat (map escape_char s) @ CHR 0x22 # rest) = Some (s, rest)"
  by (induction s) (simp_all add: string_body_escape del: escape_char.simps)

lemma is_digit_char_of: "d < 10 \<Longrightarrow> is_digit (char_of (48 + d :: nat))"
  by (simp add: is_digit_def)

lemma digits_all: "list_all is_digit (digits n)"
proof (induction n rule: digits.induct)
  case (1 n)
  show ?case
  proof (cases "n < 10")
    case True
    then show ?thesis by (subst digits.simps) (simp add: is_digit_char_of)
  next
    case False
    with 1 show ?thesis by (subst digits.simps) (simp add: is_digit_char_of)
  qed
qed

lemma digits_nonempty: "digits n \<noteq> []"
  by (subst digits.simps) simp

lemma digits_hd_zero: "hd (digits n) = CHR ''0'' \<Longrightarrow> n = 0"
proof (induction n rule: digits.induct)
  case (1 n)
  show ?case
  proof (cases "n < 10")
    case True
    have "char_of (48 + n) = CHR ''0'' \<Longrightarrow> n = 0"
    proof -
      assume "char_of (48 + n) = CHR ''0''"
      then have "of_char (char_of (48 + n)) = (of_char (CHR ''0'') :: nat)" by simp
      with True show "n = 0" by simp
    qed
    with True "1.prems" show ?thesis by (subst (asm) digits.simps) simp
  next
    case False
    with "1.prems" have "hd (digits (n div 10)) = CHR ''0''"
      by (subst (asm) digits.simps) (simp add: digits_nonempty)
    with 1 False have "n div 10 = 0" by simp
    with False show ?thesis by simp
  qed
qed

lemma digits_value: "foldl (\<lambda>a c. 10 * a + (of_char c - 48)) 0 (digits n) = n"
proof (induction n rule: digits.induct)
  case (1 n)
  show ?case
  proof (cases "n < 10")
    case True
    then show ?thesis by (subst digits.simps) simp
  next
    case False
    with 1 show ?thesis by (subst digits.simps) simp
  qed
qed

lemma number_of_digits:
  assumes "rest = [] \<or> \<not> is_digit (hd rest)"
  shows "number_of (digits n @ rest) = Some (int n, rest)"
proof -
  have a: "\<forall>c \<in> set (digits n). is_digit c"
    using digits_all [of n] by (simp add: list_all_iff)
  have t: "takeWhile is_digit (digits n @ rest) = digits n"
    using assms a by (cases rest) (simp_all add: takeWhile_append2)
  have d: "dropWhile is_digit (digits n @ rest) = rest"
    using assms a by (cases rest) (simp_all add: dropWhile_append2)
  have z: "\<not> (hd (digits n) = CHR ''0'' \<and> length (digits n) > 1)"
  proof
    assume h: "hd (digits n) = CHR ''0'' \<and> length (digits n) > 1"
    then have "n = 0" by (simp add: digits_hd_zero)
    with h show False by (subst (asm) (2) digits.simps) simp
  qed
  show ?thesis
    using z by (simp add: number_of_def t d digits_nonempty digits_value Let_def)
qed

lemma not_digit:
  "\<not> is_digit (CHR '' '')" "\<not> is_digit (CHR 0x09)" "\<not> is_digit (CHR 0x0A)"
  "\<not> is_digit (CHR 0x0D)" "\<not> is_digit (CHR ''{'')" "\<not> is_digit (CHR ''['')"
  "\<not> is_digit (CHR 0x22)" "\<not> is_digit (CHR ''-'')" "\<not> is_digit (CHR '']'')"
  "\<not> is_digit (CHR ''}'')" "\<not> is_digit (CHR '','')" "\<not> is_digit (CHR '':'')"
  by (simp_all add: is_digit_def)

lemma digit_not_punct:
  "is_digit c \<Longrightarrow>
   \<not> is_ws c \<and> c \<noteq> CHR ''{'' \<and> c \<noteq> CHR ''['' \<and> c \<noteq> CHR 0x22 \<and> c \<noteq> CHR ''-'' \<and>
   c \<noteq> CHR '']'' \<and> c \<noteq> CHR ''}''"
  using not_digit by (auto simp: is_ws_def)

lemma digits_hd: "\<exists>c cs. digits n = c # cs \<and> is_digit c"
  using digits_all [of n] digits_nonempty [of n] by (cases "digits n") simp_all

lemma stringify_hd:
  "\<exists>c cs. json_stringify v = c # cs \<and> \<not> is_ws c \<and> c \<noteq> CHR '']'' \<and> c \<noteq> CHR ''}''"
proof (cases v)
  case (JNumber i)
  show ?thesis
  proof (cases "i < 0")
    case True
    with JNumber show ?thesis by (simp add: is_ws_def)
  next
    case False
    obtain c cs where d: "digits (nat i) = c # cs" "is_digit c"
      using digits_hd by blast
    from d(2) have "\<not> is_ws c \<and> c \<noteq> CHR '']'' \<and> c \<noteq> CHR ''}''"
      by (simp add: digit_not_punct)
    with JNumber False d(1) show ?thesis by simp
  qed
next
  case (JBool b)
  then show ?thesis by (cases b) (simp_all add: is_ws_def)
qed (simp_all add: is_ws_def quote_def)

lemma skip_ws_stringify: "skip_ws (json_stringify v @ rest) = json_stringify v @ rest"
  using stringify_hd [of v] by auto

lemma parse_elements_join:
  assumes "\<And>x n r. x \<in> set xs \<Longrightarrow> Suc (size x) \<le> n \<Longrightarrow> r = [] \<or> \<not> is_digit (hd r) \<Longrightarrow>
             parse_value n (json_stringify x @ r) = Some (x, r)"
  shows "xs \<noteq> [] \<Longrightarrow> Suc (size_list size xs) \<le> m \<Longrightarrow>
         parse_elements m (join (map json_stringify xs) @ CHR '']'' # rest) = Some (xs, rest)"
  using assms
proof (induction xs arbitrary: m)
  case Nil
  then show ?case by simp
next
  case (Cons x xs)
  note IH = Cons.IH and bound = Cons.prems(2) and each = Cons.prems(3)
  obtain k where m: "m = Suc k"
    using bound by (cases m) auto
  have px: "parse_value k (json_stringify x @ r) = Some (x, r)"
    if "r = [] \<or> \<not> is_digit (hd r)" for r
    using each [of x k r] bound m that by simp
  show ?case
  proof (cases xs)
    case Nil
    then show ?thesis
      using px [of "CHR '']'' # rest"] by (simp add: m is_digit_def is_ws_def)
  next
    case (Cons y zs)
    have "parse_elements k (join (map json_stringify xs) @ CHR '']'' # rest) = Some (xs, rest)"
    proof (rule IH)
      show "xs \<noteq> []" using Cons by simp
      show "Suc (size_list size xs) \<le> k" using bound m by simp
      show "parse_value n (json_stringify x' @ r) = Some (x', r)"
        if "x' \<in> set xs" "Suc (size x') \<le> n" "r = [] \<or> \<not> is_digit (hd r)" for x' n r
        using each [of x' n r] that by simp
    qed
    then show ?thesis
      using px [of "CHR '','' # join (map json_stringify xs) @ CHR '']'' # rest"]
      by (simp add: m Cons is_digit_def is_ws_def)
  qed
qed

lemma parse_members_join:
  assumes "\<And>k x n r. (k, x) \<in> set kvs \<Longrightarrow> Suc (size x) \<le> n \<Longrightarrow> r = [] \<or> \<not> is_digit (hd r) \<Longrightarrow>
             parse_value n (json_stringify x @ r) = Some (x, r)"
  shows "kvs \<noteq> [] \<Longrightarrow> Suc (size_list (size_prod (\<lambda>_. 0) size) kvs) \<le> m \<Longrightarrow>
         parse_members m
           (join (map (\<lambda>kv. quote (fst kv) @ CHR '':'' # json_stringify (snd kv)) kvs)
             @ CHR ''}'' # rest) = Some (kvs, rest)"
  using assms
proof (induction kvs arbitrary: m)
  case Nil
  then show ?case by simp
next
  case (Cons kv kvs)
  note IH = Cons.IH and bound = Cons.prems(2) and each = Cons.prems(3)
  obtain key x where kv: "kv = (key, x)"
    by (cases kv)
  obtain k where m: "m = Suc k"
    using bound by (cases m) auto
  have px: "parse_value k (json_stringify x @ r) = Some (x, r)"
    if "r = [] \<or> \<not> is_digit (hd r)" for r
    using each [of key x k r] bound m kv that by simp
  show ?case
  proof (cases kvs)
    case Nil
    then show ?thesis
      using px [of "CHR ''}'' # rest"]
      by (simp add: m kv quote_def string_body_quote is_digit_def is_ws_def)
  next
    case (Cons y zs)
    have "parse_members k
            (join (map (\<lambda>kv. quote (fst kv) @ CHR '':'' # json_stringify (snd kv)) kvs)
              @ CHR ''}'' # rest) = Some (kvs, rest)"
    proof (rule IH)
      show "kvs \<noteq> []" using Cons by simp
      show "Suc (size_list (size_prod (\<lambda>_. 0) size) kvs) \<le> k" using bound m by simp
      show "parse_value n (json_stringify x' @ r) = Some (x', r)"
        if "(k', x') \<in> set kvs" "Suc (size x') \<le> n" "r = [] \<or> \<not> is_digit (hd r)"
        for k' x' n r
        using each [of k' x' n r] that by simp
    qed
    then show ?thesis
      using px [of "CHR '','' #
          join (map (\<lambda>kv. quote (fst kv) @ CHR '':'' # json_stringify (snd kv)) kvs)
            @ CHR ''}'' # rest"]
      by (simp add: m kv Cons quote_def string_body_quote is_digit_def is_ws_def)
  qed
qed

lemma join_hd:
  assumes "ss \<noteq> []" "\<exists>c cs. hd ss = c # cs \<and> P c"
  shows "\<exists>c cs. join ss = c # cs \<and> P c"
proof (cases ss)
  case Nil
  with assms show ?thesis by simp
next
  case (Cons s ts)
  with assms obtain c cs where "s = c # cs" "P c" by auto
  with Cons show ?thesis by (cases ts) auto
qed

lemma elements_hd:
  assumes "xs \<noteq> []"
  shows "\<exists>c cs. join (map json_stringify xs) = c # cs \<and> \<not> is_ws c \<and> c \<noteq> CHR '']''"
proof (rule join_hd)
  show "map json_stringify xs \<noteq> []" using assms by simp
  show "\<exists>c cs. hd (map json_stringify xs) = c # cs \<and> \<not> is_ws c \<and> c \<noteq> CHR '']''"
    using assms stringify_hd [of "hd xs"] by (auto simp: hd_map)
qed

lemma members_hd:
  assumes "kvs \<noteq> []"
  shows "\<exists>c cs. join (map (\<lambda>kv. quote (fst kv) @ CHR '':'' # json_stringify (snd kv)) kvs) = c # cs \<and>
           \<not> is_ws c \<and> c \<noteq> CHR ''}''"
proof (rule join_hd)
  show "map (\<lambda>kv. quote (fst kv) @ CHR '':'' # json_stringify (snd kv)) kvs \<noteq> []"
    using assms by simp
  show "\<exists>c cs. hd (map (\<lambda>kv. quote (fst kv) @ CHR '':'' # json_stringify (snd kv)) kvs) = c # cs \<and>
          \<not> is_ws c \<and> c \<noteq> CHR ''}''"
    using assms by (simp add: hd_map quote_def is_ws_def)
qed

lemma parse_value_stringify:
  "Suc (size v) \<le> n \<Longrightarrow> rest = [] \<or> \<not> is_digit (hd rest) \<Longrightarrow>
   parse_value n (json_stringify v @ rest) = Some (v, rest)"
proof (induction v arbitrary: n rest)
  case JNull
  then obtain k where "n = Suc k" by (cases n) auto
  then show ?case by (simp add: is_ws_def is_digit_def)
next
  case (JBool b)
  then obtain k where "n = Suc k" by (cases n) auto
  then show ?case by (cases b) (simp_all add: is_ws_def is_digit_def)
next
  case (JNumber i)
  then obtain k where n: "n = Suc k" by (cases n) auto
  show ?case
  proof (cases "i < 0")
    case True
    then show ?thesis
      using number_of_digits [OF JNumber.prems(2), of "nat (- i)"]
      by (simp add: n is_ws_def)
  next
    case False
    obtain c cs where d: "digits (nat i) = c # cs" "is_digit c"
      using digits_hd by blast
    have "number_of (c # cs @ rest) = Some (i, rest)"
      using number_of_digits [OF JNumber.prems(2), of "nat i"] False d(1) by simp
    then show ?thesis
      using False d digit_not_punct [OF d(2)] by (simp add: n)
  qed
next
  case (JString s)
  then obtain k where "n = Suc k" by (cases n) auto
  then show ?case by (simp add: quote_def is_ws_def string_body_quote)
next
  case (JArray xs)
  then obtain k where n: "n = Suc k" by (cases n) auto
  show ?case
  proof (cases "xs = []")
    case True
    then show ?thesis by (simp add: n is_ws_def)
  next
    case False
    obtain c cs where h: "join (map json_stringify xs) = c # cs" "\<not> is_ws c" "c \<noteq> CHR '']''"
      using elements_hd [OF False] by blast
    have "parse_elements k (join (map json_stringify xs) @ CHR '']'' # rest) = Some (xs, rest)"
    proof (rule parse_elements_join [OF _ False])
      show "Suc (size_list size xs) \<le> k" using JArray.prems(1) n by simp
      show "parse_value m (json_stringify x @ r) = Some (x, r)"
        if "x \<in> set xs" "Suc (size x) \<le> m" "r = [] \<or> \<not> is_digit (hd r)" for x m r
        using JArray.IH that by simp
    qed
    then show ?thesis
      using h by (simp add: n is_ws_def)
  qed
next
  case (JObject kvs)
  then obtain k where n: "n = Suc k" by (cases n) auto
  show ?case
  proof (cases "kvs = []")
    case True
    then show ?thesis by (simp add: n is_ws_def)
  next
    case False
    let ?ms = "join (map (\<lambda>kv. quote (fst kv) @ CHR '':'' # json_stringify (snd kv)) kvs)"
    obtain c cs where h: "?ms = c # cs" "\<not> is_ws c" "c \<noteq> CHR ''}''"
      using members_hd [OF False] by blast
    have "parse_members k (?ms @ CHR ''}'' # rest) = Some (kvs, rest)"
    proof (rule parse_members_join [OF _ False])
      show "Suc (size_list (size_prod (\<lambda>_. 0) size) kvs) \<le> k" using JObject.prems(1) n by simp
      show "parse_value m (json_stringify x @ r) = Some (x, r)"
        if "(key, x) \<in> set kvs" "Suc (size x) \<le> m" "r = [] \<or> \<not> is_digit (hd r)" for key x m r
        using JObject.IH [of "(key, x)" x m r] that by simp
    qed
    then show ?thesis
      using h by (simp add: n is_ws_def)
  qed
qed

lemma join_length: "size_list length ss \<le> Suc (length (join ss))"
  by (induction ss rule: join.induct) simp_all

lemma size_le_length: "size v \<le> length (json_stringify v)"
proof (induction v)
  case (JArray xs)
  have "size_list size xs \<le> size_list length (map json_stringify xs)"
    using JArray by (simp add: size_list_pointwise o_def)
  also have "\<dots> \<le> Suc (length (join (map json_stringify xs)))"
    by (rule join_length)
  finally show ?case by simp
next
  case (JObject kvs)
  let ?f = "\<lambda>kv. quote (fst kv) @ CHR '':'' # json_stringify (snd kv)"
  have "size_prod (\<lambda>_. 0) size kv \<le> length (?f kv)" if "kv \<in> set kvs" for kv
    using JObject [of kv "snd kv"] that by (cases kv) (simp add: quote_def)
  then have "size_list (size_prod (\<lambda>_. 0) size) kvs \<le> size_list length (map ?f kvs)"
    by (simp add: size_list_pointwise o_def)
  also have "\<dots> \<le> Suc (length (join (map ?f kvs)))"
    by (rule join_length)
  finally show ?case by simp
qed simp_all

lemma json_roundtrip: "json_parse (json_stringify v) = Some v"
proof -
  have "Suc (size v) \<le> 2 * length (json_stringify v) + 2"
    using size_le_length [of v] by simp
  then have "parse_value (2 * length (json_stringify v) + 2) (json_stringify v @ []) = Some (v, [])"
    by (rule parse_value_stringify) simp
  then show ?thesis by (simp add: json_parse_def)
qed

lemma json_stringify_nonempty: "json_stringify v \<noteq> []"
  using stringify_hd [of v] by auto

section \<open>Facts shared by the proofs\<close>

lemma keys_distinct:
  "TOKEN_KEY \<noteq> USER_KEY" "TOKEN_KEY \<noteq> REFRESH_TOKEN_KEY" "USER_KEY \<noteq> REFRESH_TOKEN_KEY"
  "USER_KEY \<noteq> TOKEN_KEY" "REFRESH_TOKEN_KEY \<noteq> TOKEN_KEY" "REFRESH_TOKEN_KEY \<noteq> USER_KEY"
  "TOKEN_KEY = ''admin_token''" "USER_KEY = ''admin_user''"
  by (simp_all add: TOKEN_KEY_def USER_KEY_def REFRESH_TOKEN_KEY_def)

lemma cookies_clearAuth:
  "cookies (clearAuth b) = (cookies b)(TOKEN_KEY := None, USER_KEY := None, REFRESH_TOKEN_KEY := None)"
  by (simp add: clearAuth_def Cookies_remove_def)

lemma href_clearAuth: "href (clearAuth b) = href b"
  by (simp add: clearAuth_def)

lemma cleared_not_authenticated:
  "cookies b TOKEN_KEY = None \<Longrightarrow> \<not> isAuthenticated JSON_parse b"
  by (simp add: isAuthenticated_def getToken_def Cookies_get_def or_null_def)

lemma logout_result: "logout r b = (Inr (), clearAuth (snd (api_request r b)))"
  by (cases r) (simp_all add: logout_def api_request_def)

lemma cookies_logout:
  "cookies (snd (logout r b)) = (cookies b)(TOKEN_KEY := None, USER_KEY := None, REFRESH_TOKEN_KEY := None)"
proof (cases r)
  case (Fulfilled x)
  then show ?thesis by (simp add: logout_result api_request_def cookies_clearAuth)
next
  case (Rejected e)
  then show ?thesis
    by (auto simp: logout_result api_request_def cookies_clearAuth response_error_interceptor_def
        Cookies_remove_def keys_distinct fun_upd_twist)
qed

lemma cookies_setUser:
  "cookies (setUser S u b) =
     (cookies b)(USER_KEY \<mapsto> \<lparr>content = S u, expires = 7, secure = True, sameSite = ''strict''\<rparr>)"
  "href (setUser S u b) = href b"
  by (simp_all add: setUser_def Cookies_set_def)

lemma cookies_interceptor:
  "cookies (response_error_interceptor e b) REFRESH_TOKEN_KEY = cookies b REFRESH_TOKEN_KEY"
  "status e = Some 401 \<Longrightarrow> cookies (response_error_interceptor e b) TOKEN_KEY = None"
  "status e = Some 401 \<Longrightarrow> cookies (response_error_interceptor e b) USER_KEY = None"
  "status e \<noteq> Some 401 \<Longrightarrow> response_error_interceptor e b = b"
  by (simp_all add: response_error_interceptor_def Cookies_remove_def TOKEN_KEY_def USER_KEY_def
      REFRESH_TOKEN_KEY_def)

lemma signed_in_cookies:
  "Cookies_get TOKEN_KEY (cookies (signed_in u)) = Some ''tok''"
  "Cookies_get REFRESH_TOKEN_KEY (cookies (signed_in u)) = Some ''ref''"
  "Cookies_get USER_KEY (cookies (signed_in u)) = Some (json_stringify u)"
  by (simp_all add: signed_in_def setUser_def setRefreshToken_def setToken_def Cookies_set_def
      Cookies_get_def keys_distinct(1-6))

lemma Cookies_get_after:
  "Cookies_get k (Cookies_remove k' jar) = (if k = k' then None else Cookies_get k jar)"
  "Cookies_get k (Cookies_set k' v d jar) = (if k = k' then Some v else Cookies_get k jar)"
  by (simp_all add: Cookies_get_def Cookies_remove_def Cookies_set_def)

lemma getUser_signed_in:
  "JSON_parse (JSON_stringify u) = Some u \<Longrightarrow> JSON_stringify u \<noteq> [] \<Longrightarrow>
   getUser JSON_parse (setUser JSON_stringify u b) = u"
  by (simp add: getUser_def cookies_setUser Cookies_get_def)

lemma getToken_setUser:
  "getToken (setUser S u b) = getToken b"
  "getRefreshToken (setUser S u b) = getRefreshToken b"
  by (simp_all add: getToken_def getRefreshToken_def setUser_def Cookies_get_after
      keys_distinct(1-6))

lemma isAuthenticated_signed_in:
  "json_parse (json_stringify u) = Some u \<Longrightarrow> json_stringify u \<noteq> [] \<Longrightarrow>
   isAuthenticated json_parse (signed_in u) = truthy u"
  by (simp add: isAuthenticated_def getToken_def getUser_def signed_in_cookies or_null_def)

section \<open>Facts about the samples\<close>

lemma sample_customer_facts:
  "sample_customer \<noteq> JNull"
  "member sample_customer ''role'' = Some (JString ''customer'')"
  "is_AdminUser sample_customer"
  by (simp_all add: sample_customer_def is_AdminUser_def has_string_def has_boolean_def
      opt_string_def opt_address_def)

lemma sample_admin_facts:
  "sample_admin \<noteq> JNull"
  "member sample_admin ''role'' = Some (JString ''admin'')"
  "is_AdminUser sample_admin"
  "truthy sample_admin"
  by (simp_all add: sample_admin_def is_AdminUser_def has_string_def has_boolean_def
      opt_string_def opt_address_def)

lemma sample_roundtrip:
  "json_parse (json_stringify sample_admin) = Some sample_admin"
  "json_parse (json_stringify sample_customer) = Some sample_customer"
  "json_stringify sample_admin \<noteq> []"
  "json_stringify sample_customer \<noteq> []"
  by (simp_all add: json_roundtrip json_stringify_nonempty)

lemma sample_response_sel:
  "data_user (data (sample_response u)) = u"
  "data_token (data (sample_response u)) = ''tok''"
  "data_refreshToken (data (sample_response u)) = ''ref''"
  by (simp_all add: sample_response_def)

lemma tampered_cookies:
  "Cookies_get USER_KEY (cookies (tampered c)) = Some c"
  "Cookies_get TOKEN_KEY (cookies (tampered c)) = Some ''tok''"
  by (simp_all add: tampered_def Cookies_set_def Cookies_get_def keys_distinct(1-6)
      signed_in_cookies [unfolded Cookies_get_def])

lemma parse_samples:
  "json_parse ''42'' = Some (JNumber 42)"
  "json_parse ''{oops'' = None"
  by code_simp+

section \<open>Login of a user who is not an admin\<close>

text \<open>
  C1. Whenever the backend fulfils the login request and the returned user, a value other
  than \<^verbatim>\<open>null\<close>, has a role other than \<^verbatim>\<open>admin\<close> (or none at all), the context's
  \<^verbatim>\<open>login\<close> ends with the access token, the refresh token and the user removed from the
  store, with \<^verbatim>\<open>isAuthenticated()\<close> false, and it fails with
  the access-denied error, which it also records. This holds whatever the backend answers
  to the logout request. The user held by the context is left as it was.
\<close>

theorem login_non_admin_denied:
  assumes "data_user (data response) \<noteq> JNull"
      and "member (data_user (data response)) ''role'' \<noteq> Some (JString ''admin'')"
  shows "let out = AuthProvider_login JSON_stringify (Fulfilled response) r_logout b s;
             b' = fst (snd out); s' = snd (snd out)
         in fst out = Inl ''Access denied. Admin privileges required.'' \<and>
            cookies b' TOKEN_KEY = None \<and> cookies b' REFRESH_TOKEN_KEY = None \<and>
            cookies b' USER_KEY = None \<and>
            \<not> isAuthenticated JSON_parse b' \<and>
            error s' = Some ''Access denied. Admin privileges required.'' \<and>
            user s' = user s \<and> pushed s' = pushed s \<and> isLoading s' = False"
proof -
  obtain b1 where l: "login JSON_stringify (Fulfilled response) b = (Inr response, b1)"
    by (simp add: login_def api_request_def)
  have out: "AuthProvider_login JSON_stringify (Fulfilled response) r_logout b s =
      (Inl access_denied, snd (logout r_logout b1),
       s\<lparr>isLoading := True, error := None, error := Some access_denied, isLoading := False\<rparr>)"
    using assms l by (simp add: AuthProvider_login_def Let_def logout_result)
  have c: "cookies (snd (logout r_logout b1)) TOKEN_KEY = None"
    "cookies (snd (logout r_logout b1)) REFRESH_TOKEN_KEY = None"
    "cookies (snd (logout r_logout b1)) USER_KEY = None"
    by (simp_all add: cookies_logout keys_distinct(1-6))
  show ?thesis
    using c cleared_not_authenticated [OF c(1)]
    by (simp add: out Let_def access_denied_def)
qed

text \<open>A customer logs in on an empty store; the logout request then fails on the network.\<close>

theorem login_non_admin_denied_witness:
  "data_user (data (sample_response sample_customer)) \<noteq> JNull \<and>
   member (data_user (data (sample_response sample_customer))) ''role'' \<noteq> Some (JString ''admin'') \<and>
   (let out = AuthProvider_login json_stringify (Fulfilled (sample_response sample_customer))
                (Rejected NoResponse) empty_browser initial_state
    in fst out = Inl ''Access denied. Admin privileges required.'' \<and>
       cookies (fst (snd out)) TOKEN_KEY = None \<and>
       cookies (fst (snd out)) REFRESH_TOKEN_KEY = None \<and>
       cookies (fst (snd out)) USER_KEY = None \<and>
       \<not> isAuthenticated json_parse (fst (snd out)) \<and>
       user (snd (snd out)) = JNull)"
proof -
  have h1: "data_user (data (sample_response sample_customer)) \<noteq> JNull"
    by (simp add: sample_response_sel sample_customer_facts)
  have h2: "member (data_user (data (sample_response sample_customer))) ''role''
              \<noteq> Some (JString ''admin'')"
    by (simp add: sample_response_sel sample_customer_facts)
  show ?thesis
    using h1 h2
      login_non_admin_denied [OF h1 h2, of json_stringify "Rejected NoResponse" empty_browser
        initial_state json_parse]
    by (simp add: Let_def initial_state_def)
qed

section \<open>A 401 response\<close>

text \<open>
  C3. For every response with status 401 the response interceptor removes the access token
  and the user from the store, leaves the refresh token cookie as it is and sets the
  location to the login page; the caller of the request receives the rejection together
  with the store already purged, so \<^verbatim>\<open>isAuthenticated()\<close> is false from then on.
\<close>

theorem unauthorized_response_purges_token_and_user:
  "let e = ErrorResponse 401 m; b' = response_error_interceptor e b
   in api_request (Rejected e) b = (Rejected e, b') \<and>
      cookies b' TOKEN_KEY = None \<and> cookies b' USER_KEY = None \<and>
      cookies b' REFRESH_TOKEN_KEY = cookies b REFRESH_TOKEN_KEY \<and>
      href b' = ''/auth/login'' \<and>
      \<not> isAuthenticated JSON_parse b'"
proof -
  define b' where "b' = response_error_interceptor (ErrorResponse 401 m) b"
  have c: "cookies b' = (cookies b)(TOKEN_KEY := None, USER_KEY := None)"
    and h: "href b' = ''/auth/login''"
    by (simp_all add: b'_def response_error_interceptor_def Cookies_remove_def keys_distinct(7,8))
  have t: "cookies b' TOKEN_KEY = None"
    by (simp add: c keys_distinct(1))
  show ?thesis
    using t h cleared_not_authenticated [OF t, of JSON_parse]
    by (simp add: Let_def b'_def [symmetric] api_request_def c keys_distinct(1-6))
qed

text \<open>A signed-in admin's request is answered with 401.\<close>

theorem unauthorized_response_purges_token_and_user_witness:
  "(let b' = snd (api_request (Rejected (ErrorResponse 401 (Some ''Token expired'')) :: unit outcome)
                (signed_in sample_admin))
    in isAuthenticated json_parse (signed_in sample_admin) \<and>
       cookies b' TOKEN_KEY = None \<and> cookies b' USER_KEY = None \<and>
       map_option content (cookies b' REFRESH_TOKEN_KEY) = Some ''ref'' \<and>
       href b' = ''/auth/login'' \<and> \<not> isAuthenticated json_parse b')"
proof -
  have a: "isAuthenticated json_parse (signed_in sample_admin)"
    by (simp add: isAuthenticated_def getToken_def getUser_def signed_in_def setUser_def
        setRefreshToken_def setToken_def Cookies_set_def Cookies_get_def or_null_def
        keys_distinct(1-6) sample_roundtrip sample_admin_facts)
  have r: "map_option content (cookies (signed_in sample_admin) REFRESH_TOKEN_KEY) = Some ''ref''"
    by (simp add: signed_in_def setUser_def setRefreshToken_def setToken_def Cookies_set_def
        keys_distinct(1-6))
  show ?thesis
    using a r
      unauthorized_response_purges_token_and_user
        [where ?'a = unit, of "Some ''Token expired''" "signed_in sample_admin" json_parse]
    by (simp add: Let_def)
qed

section \<open>Token refresh that fails\<close>

text \<open>
  C4. Whenever \<^verbatim>\<open>refreshToken()\<close> finds no refresh token in the store (none, or an empty
  one), or the backend rejects the refresh request, the operation removes all three parts
  of the session from the store and throws the generic \<^verbatim>\<open>Token refresh failed\<close>.
\<close>

theorem refresh_failure_purges_session:
  assumes "getRefreshToken b = None \<or> (\<exists>e. r = Rejected e)"
  shows "fst (refreshToken r b) = Inl ''Token refresh failed'' \<and>
         cookies (snd (refreshToken r b)) TOKEN_KEY = None \<and>
         cookies (snd (refreshToken r b)) REFRESH_TOKEN_KEY = None \<and>
         cookies (snd (refreshToken r b)) USER_KEY = None \<and>
         \<not> isAuthenticated JSON_parse (snd (refreshToken r b))"
proof -
  have "\<exists>b0. refreshToken r b = (Inl ''Token refresh failed'', clearAuth b0)"
  proof (cases "getRefreshToken b")
    case None
    then show ?thesis by (auto simp: refreshToken_def)
  next
    case (Some t)
    with assms obtain e where "r = Rejected e" by auto
    with Some show ?thesis by (auto simp: refreshToken_def api_request_def)
  qed
  then obtain b0 where out: "refreshToken r b = (Inl ''Token refresh failed'', clearAuth b0)" ..
  have t: "cookies (clearAuth b0) TOKEN_KEY = None"
    by (simp add: cookies_clearAuth keys_distinct(1-6))
  show ?thesis
    using cleared_not_authenticated [OF t, of JSON_parse]
    by (simp add: out cookies_clearAuth keys_distinct(1-6))
qed

text \<open>
  A signed-in store whose refresh token cookie was removed, and a signed-in store whose
  refresh request the backend answers with 403.
\<close>

theorem refresh_failure_purges_session_witness:
  "getRefreshToken ((signed_in sample_admin)\<lparr>cookies :=
       Cookies_remove REFRESH_TOKEN_KEY (cookies (signed_in sample_admin))\<rparr>) = None \<and>
   (let out = refreshToken (Fulfilled ''fresh'')
                ((signed_in sample_admin)\<lparr>cookies :=
                   Cookies_remove REFRESH_TOKEN_KEY (cookies (signed_in sample_admin))\<rparr>)
    in fst out = Inl ''Token refresh failed'' \<and> cookies (snd out) TOKEN_KEY = None \<and>
       cookies (snd out) USER_KEY = None) \<and>
   getRefreshToken (signed_in sample_admin) = Some ''ref'' \<and>
   (let out = refreshToken (Rejected (ErrorResponse 403 (Some ''Invalid refresh token'')))
                (signed_in sample_admin)
    in fst out = Inl ''Token refresh failed'' \<and> cookies (snd out) TOKEN_KEY = None \<and>
       cookies (snd out) REFRESH_TOKEN_KEY = None \<and> cookies (snd out) USER_KEY = None \<and>
       \<not> isAuthenticated json_parse (snd out))"
proof -
  let ?b = "(signed_in sample_admin)\<lparr>cookies :=
       Cookies_remove REFRESH_TOKEN_KEY (cookies (signed_in sample_admin))\<rparr>"
  have h1: "getRefreshToken ?b = None"
    by (simp add: getRefreshToken_def Cookies_get_def Cookies_remove_def or_null_def)
  have h2: "getRefreshToken (signed_in sample_admin) = Some ''ref''"
    by (simp add: getRefreshToken_def signed_in_cookies or_null_def)
  have h3: "\<exists>e. Rejected (ErrorResponse 403 (Some ''Invalid refresh token'')) = Rejected e"
    by simp
  show ?thesis
    using h1 h2
      refresh_failure_purges_session [OF disjI1 [OF h1], of "Fulfilled ''fresh''" json_parse]
      refresh_failure_purges_session [OF disjI2 [OF h3], of "signed_in sample_admin" json_parse]
    by (simp add: Let_def)
qed

section \<open>What the profile calls change in the store\<close>

text \<open>
  C5 says that \<^verbatim>\<open>getCurrentUser()\<close> and \<^verbatim>\<open>updateProfile()\<close> never change the stored access
  token, and that on failure the token is untouched. Their requests run through the
  response interceptor: when the profile request of a signed-in admin is answered with 401,
  \<^verbatim>\<open>getCurrentUser()\<close> fails and the access token is gone from the store.
\<close>

theorem profile_call_401_removes_token:
  "getToken (signed_in sample_admin) = Some ''tok'' \<and>
   fst (getCurrentUser json_stringify (Rejected (ErrorResponse 401 None)) (signed_in sample_admin))
     = Inl ''Failed to get user profile'' \<and>
   getToken (snd (getCurrentUser json_stringify (Rejected (ErrorResponse 401 None))
                    (signed_in sample_admin))) = None"
proof -
  let ?e = "ErrorResponse 401 None"
  have "Cookies_get TOKEN_KEY (cookies (response_error_interceptor ?e (signed_in sample_admin))) = None"
    by (simp add: Cookies_get_def cookies_interceptor)
  then show ?thesis
    by (simp add: getToken_def signed_in_cookies or_null_def getCurrentUser_def api_request_def)
qed

text \<open>
  C5, amended. \<^verbatim>\<open>getCurrentUser()\<close> and \<^verbatim>\<open>updateProfile()\<close> leave the store in the same state
  as each other and never change the refresh token. When the request is fulfilled they
  overwrite the user cookie and nothing else. When it is rejected with anything but a 401
  they leave the whole store as it was. When it is rejected with a 401, the interceptor
  removes the access token and the user and sets the location to the login page.
\<close>

theorem profile_calls_frame:
  "let b1 = snd (getCurrentUser S r b); b2 = snd (updateProfile S r b)
   in b2 = b1 \<and>
      cookies b1 REFRESH_TOKEN_KEY = cookies b REFRESH_TOKEN_KEY \<and>
      (\<forall>u. r = Fulfilled u \<longrightarrow>
         cookies b1 = (cookies b)(USER_KEY \<mapsto>
            \<lparr>content = S u, expires = 7, secure = True, sameSite = ''strict''\<rparr>) \<and>
         href b1 = href b \<and> cookies b1 TOKEN_KEY = cookies b TOKEN_KEY) \<and>
      (\<forall>e. r = Rejected e \<and> status e \<noteq> Some 401 \<longrightarrow> b1 = b) \<and>
      (\<forall>e. r = Rejected e \<and> status e = Some 401 \<longrightarrow>
         cookies b1 TOKEN_KEY = None \<and> cookies b1 USER_KEY = None \<and> href b1 = ''/auth/login'')"
proof (cases r)
  case (Fulfilled u)
  then show ?thesis
    by (simp add: Let_def getCurrentUser_def updateProfile_def api_request_def cookies_setUser
        keys_distinct(1-6))
next
  case (Rejected e)
  then show ?thesis
    by (simp add: Let_def getCurrentUser_def updateProfile_def api_request_def cookies_interceptor)
      (simp add: response_error_interceptor_def)
qed

text \<open>A fulfilled update, a 500 and a 401 on signed-in stores.\<close>

theorem profile_calls_frame_witness:
  "(let b1 = snd (updateProfile json_stringify (Fulfilled sample_admin) (signed_in sample_customer))
    in Cookies_get USER_KEY (cookies b1) = Some (json_stringify sample_admin) \<and>
       cookies b1 TOKEN_KEY = cookies (signed_in sample_customer) TOKEN_KEY \<and>
       cookies b1 REFRESH_TOKEN_KEY = cookies (signed_in sample_customer) REFRESH_TOKEN_KEY) \<and>
   status (ErrorResponse 500 None) \<noteq> Some 401 \<and>
   snd (getCurrentUser json_stringify (Rejected (ErrorResponse 500 None)) (signed_in sample_admin))
     = signed_in sample_admin \<and>
   status (ErrorResponse 401 None) = Some 401 \<and>
   (let b1 = snd (getCurrentUser json_stringify (Rejected (ErrorResponse 401 None))
                   (signed_in sample_admin))
    in cookies b1 TOKEN_KEY = None \<and> cookies b1 USER_KEY = None \<and>
       cookies b1 REFRESH_TOKEN_KEY = cookies (signed_in sample_admin) REFRESH_TOKEN_KEY)"
  using
    profile_calls_frame [of json_stringify "Fulfilled sample_admin" "signed_in sample_customer"]
    profile_calls_frame [of json_stringify "Rejected (ErrorResponse 500 None)" "signed_in sample_admin"]
    profile_calls_frame [of json_stringify "Rejected (ErrorResponse 401 None)" "signed_in sample_admin"]
  by (simp add: Let_def Cookies_get_def keys_distinct(1-6))

section \<open>Logout and the propagation of backend failures\<close>

text \<open>
  C6. \<^verbatim>\<open>logout()\<close> never throws, whatever the backend answers, and always leaves the store
  without access token, refresh token and user; the context's \<^verbatim>\<open>logout\<close> never throws
  either, records no error, drops the user and navigates to the login page. Every other
  operation of the session manager that calls the backend throws when its request is
  rejected: logout is the only one that suppresses the failure.
\<close>

theorem logout_swallows_backend_failure:
  "fst (logout r b) = Inr () \<and>
   cookies (snd (logout r b)) TOKEN_KEY = None \<and>
   cookies (snd (logout r b)) REFRESH_TOKEN_KEY = None \<and>
   cookies (snd (logout r b)) USER_KEY = None \<and>
   fst (AuthProvider_logout r b s) = Inr () \<and>
   fst (snd (AuthProvider_logout r b s)) = snd (logout r b) \<and>
   user (snd (snd (AuthProvider_logout r b s))) = JNull \<and>
   error (snd (snd (AuthProvider_logout r b s))) = error s \<and>
   pushed (snd (snd (AuthProvider_logout r b s))) = pushed s @ [''/auth/login''] \<and>
   fst (login S (Rejected e) b) = Inl (error_or e ''Login failed'') \<and>
   fst (register S (Rejected e) b) = Inl (error_or e ''Registration failed'') \<and>
   fst (forgotPassword (Rejected e) b) = Inl (error_or e ''Failed to send reset email'') \<and>
   fst (resetPassword (Rejected e) b) = Inl (error_or e ''Failed to reset password'') \<and>
   fst (refreshToken (Rejected e) b) = Inl ''Token refresh failed'' \<and>
   fst (getCurrentUser S (Rejected e) b) = Inl (error_or e ''Failed to get user profile'') \<and>
   fst (updateProfile S (Rejected e) b) = Inl (error_or e ''Failed to update profile'')"
proof -
  have a: "fst (logout r b) = Inr ()"
    by (simp add: logout_result)
  have c: "cookies (snd (logout r b)) TOKEN_KEY = None"
    "cookies (snd (logout r b)) REFRESH_TOKEN_KEY = None"
    "cookies (snd (logout r b)) USER_KEY = None"
    by (simp_all add: cookies_logout keys_distinct(1-6))
  have p: "AuthProvider_logout r b s =
      (Inr (), snd (logout r b),
       s\<lparr>isLoading := True, user := JNull, pushed := pushed s @ [''/auth/login''],
          isLoading := False\<rparr>)"
    by (simp add: AuthProvider_logout_def logout_result Let_def)
  have o: "fst (login S (Rejected e) b) = Inl (error_or e ''Login failed'')"
    "fst (register S (Rejected e) b) = Inl (error_or e ''Registration failed'')"
    "fst (forgotPassword (Rejected e) b) = Inl (error_or e ''Failed to send reset email'')"
    "fst (resetPassword (Rejected e) b) = Inl (error_or e ''Failed to reset password'')"
    "fst (getCurrentUser S (Rejected e) b) = Inl (error_or e ''Failed to get user profile'')"
    "fst (updateProfile S (Rejected e) b) = Inl (error_or e ''Failed to update profile'')"
    by (simp_all add: login_def register_def forgotPassword_def resetPassword_def
        getCurrentUser_def updateProfile_def api_request_def)
  have f: "fst (refreshToken (Rejected e) b) = Inl ''Token refresh failed''"
    by (cases "getRefreshToken b") (simp_all add: refreshToken_def api_request_def)
  show ?thesis
    using a c o f by (simp add: p)
qed

text \<open>A backend that answers 500 with a message, and one that does not answer.\<close>

theorem logout_swallows_backend_failure_witness:
  "fst (logout (Rejected (ErrorResponse 500 (Some ''boom''))) (signed_in sample_admin)) = Inr () \<and>
   cookies (snd (logout (Rejected (ErrorResponse 500 (Some ''boom''))) (signed_in sample_admin)))
     TOKEN_KEY = None \<and>
   fst (AuthProvider_logout (Rejected NoResponse) (signed_in sample_admin) initial_state) = Inr () \<and>
   fst (login json_stringify (Rejected (ErrorResponse 500 (Some ''boom''))) (signed_in sample_admin))
     = Inl ''boom'' \<and>
   fst (refreshToken (Rejected (ErrorResponse 500 (Some ''boom''))) (signed_in sample_admin))
     = Inl ''Token refresh failed'' \<and>
   fst (updateProfile json_stringify (Rejected NoResponse) (signed_in sample_admin))
     = Inl ''Failed to update profile''"
  using
    logout_swallows_backend_failure
      [of "Rejected (ErrorResponse 500 (Some ''boom''))" "signed_in sample_admin" initial_state
          json_stringify "ErrorResponse 500 (Some ''boom'')"]
    logout_swallows_backend_failure
      [of "Rejected NoResponse" "signed_in sample_admin" initial_state json_stringify NoResponse]
  by simp

section \<open>Clearing the store twice\<close>

text \<open>
  C8. \<^verbatim>\<open>clearAuth()\<close> is a total operation on every store, whichever of the three keys are
  present: it leaves the three keys absent and every other cookie and the location as
  they were, and a second call changes nothing. \<^verbatim>\<open>logout()\<close> succeeds on every store and
  whatever the backend answers, and leaves the cookie jar as \<^verbatim>\<open>clearAuth()\<close> leaves it, with
  the three keys absent; a second \<^verbatim>\<open>logout()\<close> succeeds as well and leaves the jar in that
  same state.
\<close>

theorem clearAuth_idempotent_total:
  "clearAuth (clearAuth b) = clearAuth b \<and>
   cookies (clearAuth b) TOKEN_KEY = None \<and>
   cookies (clearAuth b) USER_KEY = None \<and>
   cookies (clearAuth b) REFRESH_TOKEN_KEY = None \<and>
   (\<forall>k. k \<noteq> TOKEN_KEY \<and> k \<noteq> USER_KEY \<and> k \<noteq> REFRESH_TOKEN_KEY \<longrightarrow>
        cookies (clearAuth b) k = cookies b k) \<and>
   href (clearAuth b) = href b \<and>
   fst (logout r2 (snd (logout r1 b))) = Inr () \<and>
   cookies (snd (logout r2 (snd (logout r1 b)))) = cookies (snd (logout r1 b)) \<and>
   fst (logout r1 b) = Inr () \<and>
   cookies (snd (logout r1 b)) = cookies (clearAuth b) \<and>
   cookies (snd (logout r1 b)) TOKEN_KEY = None \<and>
   cookies (snd (logout r1 b)) USER_KEY = None \<and>
   cookies (snd (logout r1 b)) REFRESH_TOKEN_KEY = None \<and>
   cookies (snd (logout r2 (snd (logout r1 b)))) = cookies (clearAuth b) \<and>
   cookies (snd (logout r2 (snd (logout r1 b)))) TOKEN_KEY = None \<and>
   cookies (snd (logout r2 (snd (logout r1 b)))) USER_KEY = None \<and>
   cookies (snd (logout r2 (snd (logout r1 b)))) REFRESH_TOKEN_KEY = None"
proof -
  have "cookies (clearAuth (clearAuth b)) = cookies (clearAuth b)"
    by (rule ext) (simp add: cookies_clearAuth)
  then have i: "clearAuth (clearAuth b) = clearAuth b"
    by (simp add: clearAuth_def)
  have one: "cookies (snd (logout r1 b)) = cookies (clearAuth b)"
    by (simp add: cookies_logout cookies_clearAuth)
  have two: "cookies (snd (logout r2 (snd (logout r1 b)))) = cookies (snd (logout r1 b))"
    by (rule ext) (simp add: cookies_logout)
  have absent: "cookies (clearAuth b) TOKEN_KEY = None" "cookies (clearAuth b) USER_KEY = None"
    "cookies (clearAuth b) REFRESH_TOKEN_KEY = None"
    by (simp_all add: cookies_clearAuth keys_distinct(1-6))
  have rest: "\<forall>k. k \<noteq> TOKEN_KEY \<and> k \<noteq> USER_KEY \<and> k \<noteq> REFRESH_TOKEN_KEY \<longrightarrow>
      cookies (clearAuth b) k = cookies b k"
    by (simp add: cookies_clearAuth)
  have ok: "fst (logout r1 b) = Inr ()" "fst (logout r2 (snd (logout r1 b))) = Inr ()"
    by (simp_all add: logout_result)
  show ?thesis
    using i absent rest ok by (simp add: two one href_clearAuth)
qed

text \<open>
  The empty store, where all three keys are absent already, and a signed-in store, whose
  token is present before the first logout and absent after it and after the second.
\<close>

theorem clearAuth_idempotent_total_witness:
  "cookies empty_browser TOKEN_KEY = None \<and> cookies empty_browser USER_KEY = None \<and>
   cookies empty_browser REFRESH_TOKEN_KEY = None \<and>
   clearAuth (clearAuth empty_browser) = clearAuth empty_browser \<and>
   cookies (clearAuth empty_browser) USER_KEY = None \<and>
   ''theme'' \<noteq> TOKEN_KEY \<and> ''theme'' \<noteq> USER_KEY \<and> ''theme'' \<noteq> REFRESH_TOKEN_KEY \<and>
   cookies (clearAuth (signed_in sample_admin)) ''theme'' = cookies (signed_in sample_admin) ''theme'' \<and>
   cookies (clearAuth (signed_in sample_admin)) TOKEN_KEY = None \<and>
   cookies (snd (logout (Rejected NoResponse) (snd (logout (Fulfilled ()) (signed_in sample_admin)))))
     = cookies (snd (logout (Fulfilled ()) (signed_in sample_admin))) \<and>
   Cookies_get TOKEN_KEY (cookies (signed_in sample_admin)) = Some ''tok'' \<and>
   fst (logout (Fulfilled ()) (signed_in sample_admin)) = Inr () \<and>
   cookies (snd (logout (Fulfilled ()) (signed_in sample_admin))) TOKEN_KEY = None \<and>
   cookies (snd (logout (Fulfilled ()) (signed_in sample_admin))) USER_KEY = None \<and>
   cookies (snd (logout (Fulfilled ()) (signed_in sample_admin))) REFRESH_TOKEN_KEY = None \<and>
   cookies (snd (logout (Rejected NoResponse) (snd (logout (Fulfilled ()) (signed_in sample_admin)))))
     TOKEN_KEY = None \<and>
   fst (logout (Rejected NoResponse) empty_browser) = Inr () \<and>
   cookies (snd (logout (Rejected NoResponse) empty_browser)) TOKEN_KEY = None"
  using
    clearAuth_idempotent_total [of empty_browser "Rejected NoResponse" "Fulfilled ()"]
    clearAuth_idempotent_total [of empty_browser "Rejected NoResponse" "Rejected NoResponse"]
    clearAuth_idempotent_total [of "signed_in sample_admin" "Rejected NoResponse" "Fulfilled ()"]
    signed_in_cookies(1) [of sample_admin]
  by (simp add: empty_browser_def TOKEN_KEY_def USER_KEY_def REFRESH_TOKEN_KEY_def)

section \<open>The stored user: round trip and content that is no user\<close>

text \<open>
  C7 says that \<^verbatim>\<open>getUser()\<close> returns none whenever the user cookie holds content that is not
  valid serialized user data. The only guard in \<^verbatim>\<open>getUser\<close> is the \<^verbatim>\<open>catch\<close> around
  \<^verbatim>\<open>JSON.parse\<close>: with the user cookie overwritten by the text \<^verbatim>\<open>42\<close>, which parses but is no
  user record, \<^verbatim>\<open>getUser()\<close> returns the number 42, and \<^verbatim>\<open>isAuthenticated()\<close> still holds.
\<close>

theorem stored_number_is_returned_as_user:
  "Cookies_get USER_KEY (cookies (tampered ''42'')) = Some ''42'' \<and>
   json_parse ''42'' = Some (JNumber 42) \<and>
   \<not> is_AdminUser (JNumber 42) \<and>
   getUser json_parse (tampered ''42'') = JNumber 42 \<and>
   getUser json_parse (tampered ''42'') \<noteq> JNull \<and>
   isAuthenticated json_parse (tampered ''42'')"
  by (simp add: tampered_cookies parse_samples is_AdminUser_def getUser_def isAuthenticated_def
      getToken_def or_null_def)

text \<open>
  C7, amended. \<^verbatim>\<open>setUser(u)\<close> followed by \<^verbatim>\<open>getUser()\<close> returns \<open>u\<close>: with the codec of this
  theory for every JSON value \<open>u\<close>, so for every well-formed user record, and with any
  \<^verbatim>\<open>JSON.stringify\<close> and \<^verbatim>\<open>JSON.parse\<close> for every \<open>u\<close> that the one writes as a non-empty text
  and the other reads back. \<^verbatim>\<open>getUser()\<close> returns \<^verbatim>\<open>null\<close> when the user cookie is absent,
  empty, or holds text that \<^verbatim>\<open>JSON.parse\<close> rejects; it has no failing branch. Text that
  parses is returned as parsed, with no check that it is a user record.
\<close>

theorem stored_user_roundtrip:
  "getUser json_parse (setUser json_stringify u b) = u \<and>
   (JSON_parse (JSON_stringify u) = Some u \<and> JSON_stringify u \<noteq> [] \<longrightarrow>
      getUser JSON_parse (setUser JSON_stringify u b) = u) \<and>
   (Cookies_get USER_KEY (cookies b) = None \<longrightarrow> getUser JSON_parse b = JNull) \<and>
   (Cookies_get USER_KEY (cookies b) = Some [] \<longrightarrow> getUser JSON_parse b = JNull) \<and>
   (\<forall>c. Cookies_get USER_KEY (cookies b) = Some c \<and> JSON_parse c = None \<longrightarrow>
        getUser JSON_parse b = JNull) \<and>
   (\<forall>c v. Cookies_get USER_KEY (cookies b) = Some c \<and> c \<noteq> [] \<and> JSON_parse c = Some v \<longrightarrow>
        getUser JSON_parse b = v)"
  by (simp add: getUser_signed_in json_roundtrip json_stringify_nonempty) (auto simp: getUser_def)

text \<open>
  A well-formed admin record, the empty store, and a signed-in store whose user cookie
  was overwritten with the empty text, with \<^verbatim>\<open>{oops\<close> and with \<^verbatim>\<open>42\<close>.
\<close>

theorem stored_user_roundtrip_witness:
  "is_AdminUser sample_admin \<and>
   json_parse (json_stringify sample_admin) = Some sample_admin \<and>
   json_stringify sample_admin \<noteq> [] \<and>
   getUser json_parse (setUser json_stringify sample_admin empty_browser) = sample_admin \<and>
   Cookies_get USER_KEY (cookies empty_browser) = None \<and>
   getUser json_parse empty_browser = JNull \<and>
   Cookies_get USER_KEY (cookies (tampered [])) = Some [] \<and>
   getUser json_parse (tampered []) = JNull \<and>
   Cookies_get USER_KEY (cookies (tampered ''{oops'')) = Some ''{oops'' \<and>
   json_parse ''{oops'' = None \<and>
   getUser json_parse (tampered ''{oops'') = JNull \<and>
   Cookies_get USER_KEY (cookies (tampered ''42'')) = Some ''42'' \<and>
   json_parse ''42'' = Some (JNumber 42) \<and>
   getUser json_parse (tampered ''42'') = JNumber 42"
  using
    stored_user_roundtrip [of sample_admin empty_browser json_parse json_stringify]
    stored_user_roundtrip [of sample_admin "tampered []" json_parse json_stringify]
    stored_user_roundtrip [of sample_admin "tampered ''{oops''" json_parse json_stringify]
    stored_user_roundtrip [of sample_admin "tampered ''42''" json_parse json_stringify]
  by (simp add: sample_roundtrip sample_admin_facts tampered_cookies parse_samples)
    (simp add: empty_browser_def Cookies_get_def)

section \<open>\<^verbatim>\<open>isAdmin()\<close> without an access token\<close>

text \<open>
  C9. \<^verbatim>\<open>isAdmin()\<close> reads the stored user only: on every store with no access token whose
  stored user has role \<^verbatim>\<open>admin\<close>, \<^verbatim>\<open>isAdmin()\<close> is true while \<^verbatim>\<open>isAuthenticated()\<close> is false,
  and removing or replacing the access token never changes what \<^verbatim>\<open>isAdmin()\<close> returns.
  The theorem after it exhibits such a store.
\<close>

theorem isAdmin_does_not_read_the_token:
  "(getToken b = None \<and> role_is_admin (getUser JSON_parse b) \<longrightarrow>
      isAdmin JSON_parse b \<and> \<not> isAuthenticated JSON_parse b) \<and>
   isAdmin JSON_parse (b\<lparr>cookies := Cookies_remove TOKEN_KEY (cookies b)\<rparr>) = isAdmin JSON_parse b \<and>
   isAdmin JSON_parse (setToken t b) = isAdmin JSON_parse b"
  by (simp add: isAdmin_def isAuthenticated_def getUser_def setToken_def Cookies_get_def
      Cookies_remove_def Cookies_set_def keys_distinct(1-6))

text \<open>A signed-in admin's store after the access token cookie alone was removed.\<close>

theorem isAdmin_does_not_read_the_token_witness:
  "(let b = (signed_in sample_admin)\<lparr>cookies :=
              Cookies_remove TOKEN_KEY (cookies (signed_in sample_admin))\<rparr>
    in cookies b TOKEN_KEY = None \<and> getToken b = None \<and>
       getUser json_parse b = sample_admin \<and>
       member (getUser json_parse b) ''role'' = Some (JString ''admin'') \<and>
       isAdmin json_parse b \<and> \<not> isAuthenticated json_parse b)"
proof -
  let ?b = "(signed_in sample_admin)\<lparr>cookies :=
              Cookies_remove TOKEN_KEY (cookies (signed_in sample_admin))\<rparr>"
  have t: "cookies ?b TOKEN_KEY = None" "getToken ?b = None"
    by (simp_all add: getToken_def Cookies_get_def Cookies_remove_def or_null_def)
  have u: "getUser json_parse ?b = sample_admin"
    by (simp add: getUser_def Cookies_get_after signed_in_cookies keys_distinct(1-6)
        sample_roundtrip)
  have a: "role_is_admin (getUser json_parse ?b)"
    by (simp add: u role_is_admin_def sample_admin_facts)
  show ?thesis
    using t u a isAdmin_does_not_read_the_token [of ?b json_parse "''x''"]
    by (simp add: Let_def sample_admin_facts)
qed

section \<open>Startup validation of a stored session\<close>

text \<open>
  C2 says that the startup check clears a stored session whose user is not an admin
  instead of adopting the user. \<^verbatim>\<open>initAuth\<close> has no role check: with a customer's session in
  the store and the profile request fulfilled with that customer, the context adopts the
  customer and the store still holds the session, so \<^verbatim>\<open>isAuthenticated()\<close> remains true.
\<close>

theorem bootstrap_keeps_non_admin_session:
  "\<not> role_is_admin sample_customer \<and>
   isAuthenticated json_parse (signed_in sample_customer) \<and>
   user (snd (initAuth json_parse json_stringify (Fulfilled sample_customer)
                (signed_in sample_customer) initial_state)) = sample_customer \<and>
   provided_isAuthenticated (snd (initAuth json_parse json_stringify (Fulfilled sample_customer)
                (signed_in sample_customer) initial_state)) \<and>
   getToken (fst (initAuth json_parse json_stringify (Fulfilled sample_customer)
                (signed_in sample_customer) initial_state)) = Some ''tok'' \<and>
   getUser json_parse (fst (initAuth json_parse json_stringify (Fulfilled sample_customer)
                (signed_in sample_customer) initial_state)) = sample_customer \<and>
   isAuthenticated json_parse (fst (initAuth json_parse json_stringify (Fulfilled sample_customer)
                (signed_in sample_customer) initial_state))"
proof -
  have t: "truthy sample_customer" by (simp add: sample_customer_def)
  have a: "isAuthenticated json_parse (signed_in sample_customer)"
    by (simp add: isAuthenticated_signed_in sample_roundtrip t)
  have g: "getUser json_parse (signed_in sample_customer) = sample_customer"
    by (simp add: getUser_def signed_in_cookies sample_roundtrip)
  have i: "initAuth json_parse json_stringify (Fulfilled sample_customer)
             (signed_in sample_customer) initial_state =
           (setUser json_stringify sample_customer (signed_in sample_customer),
            initial_state\<lparr>isLoading := True, user := sample_customer, user := sample_customer,
              isLoading := False\<rparr>)"
    by (simp add: initAuth_def a g t getCurrentUser_def api_request_def Let_def)
  have k: "getToken (signed_in sample_customer) = Some ''tok''"
    by (simp add: getToken_def signed_in_cookies or_null_def)
  have u: "getUser json_parse (setUser json_stringify sample_customer (signed_in sample_customer))
             = sample_customer"
    by (simp add: getUser_signed_in sample_roundtrip)
  show ?thesis
    using a t k u
    by (simp add: i getToken_setUser provided_isAuthenticated_def role_is_admin_def
        sample_customer_facts isAuthenticated_def)
qed

text \<open>
  C2, amended. At startup, when \<^verbatim>\<open>isAuthenticated()\<close> holds and the profile request is
  fulfilled, the context adopts the returned user whatever its role; only the user cookie
  is overwritten, the access token and the refresh token stay, and the context's admin
  flag says whether the role is \<^verbatim>\<open>admin\<close>. When the profile request is rejected, the store
  is cleared and the context holds no user. When \<^verbatim>\<open>isAuthenticated()\<close> does not hold,
  store and user are left as they are. In each case loading ends.
\<close>

theorem bootstrap_adopts_revalidated_user:
  "(isAuthenticated JSON_parse b \<longrightarrow>
      initAuth JSON_parse JSON_stringify (Fulfilled fresh) b s =
        (setUser JSON_stringify fresh b, s\<lparr>user := fresh, isLoading := False\<rparr>) \<and>
      getToken (fst (initAuth JSON_parse JSON_stringify (Fulfilled fresh) b s)) = getToken b \<and>
      getRefreshToken (fst (initAuth JSON_parse JSON_stringify (Fulfilled fresh) b s))
        = getRefreshToken b \<and>
      provided_isAdmin (snd (initAuth JSON_parse JSON_stringify (Fulfilled fresh) b s))
        = role_is_admin fresh) \<and>
   (isAuthenticated JSON_parse b \<longrightarrow>
      initAuth JSON_parse JSON_stringify (Rejected e) b s =
        (clearAuth (response_error_interceptor e b), s\<lparr>user := JNull, isLoading := False\<rparr>)) \<and>
   (\<not> isAuthenticated JSON_parse b \<longrightarrow>
      initAuth JSON_parse JSON_stringify r b s = (b, s\<lparr>isLoading := False\<rparr>))"
proof -
  have t: "isAuthenticated JSON_parse b \<Longrightarrow> truthy (getUser JSON_parse b)"
    by (simp add: isAuthenticated_def split: option.splits)
  show ?thesis
    using t
    by (simp add: initAuth_def getCurrentUser_def api_request_def Let_def getToken_setUser
        provided_isAdmin_def)
qed

text \<open>A customer's stored session, revalidated and not, and the empty store.\<close>

theorem bootstrap_adopts_revalidated_user_witness:
  "isAuthenticated json_parse (signed_in sample_customer) \<and>
   initAuth json_parse json_stringify (Fulfilled sample_customer) (signed_in sample_customer)
     initial_state =
     (setUser json_stringify sample_customer (signed_in sample_customer),
      initial_state\<lparr>user := sample_customer, isLoading := False\<rparr>) \<and>
   \<not> provided_isAdmin (snd (initAuth json_parse json_stringify (Fulfilled sample_customer)
        (signed_in sample_customer) initial_state)) \<and>
   initAuth json_parse json_stringify (Rejected NoResponse) (signed_in sample_customer)
     initial_state =
     (clearAuth (response_error_interceptor NoResponse (signed_in sample_customer)),
      initial_state\<lparr>user := JNull, isLoading := False\<rparr>) \<and>
   \<not> isAuthenticated json_parse empty_browser \<and>
   initAuth json_parse json_stringify (Fulfilled sample_admin) empty_browser initial_state =
     (empty_browser, initial_state\<lparr>isLoading := False\<rparr>)"
proof -
  have a: "isAuthenticated json_parse (signed_in sample_customer)"
    by (simp add: isAuthenticated_signed_in sample_roundtrip) (simp add: sample_customer_def)
  have n: "\<not> isAuthenticated json_parse empty_browser"
    by (simp add: cleared_not_authenticated empty_browser_def)
  have c: "\<not> role_is_admin sample_customer"
    by (simp add: role_is_admin_def sample_customer_facts)
  show ?thesis
    using a n c
      bootstrap_adopts_revalidated_user [of json_parse "signed_in sample_customer" json_stringify
        sample_customer initial_state NoResponse "Fulfilled sample_admin"]
      bootstrap_adopts_revalidated_user [of json_parse empty_browser json_stringify
        sample_customer initial_state NoResponse "Fulfilled sample_admin"]
    by (simp add: provided_isAdmin_def)
qed

section \<open>Registration makes no role check\<close>

text \<open>
  C10. For every fulfilled registration the context's \<^verbatim>\<open>register\<close> succeeds, adopts the
  returned user whatever its role, and pushes \<^verbatim>\<open>/dashboard\<close>; the store is as the session
  manager's \<^verbatim>\<open>register\<close> left it. The context's authenticated flag is then the truthiness
  of that user (true for every user object) and its admin flag says whether the role is
  \<^verbatim>\<open>admin\<close>. For the same response with a user that is not an admin, the context's
  \<^verbatim>\<open>login\<close> fails with the access-denied error.
\<close>

theorem register_adopts_any_role:
  "let out = AuthProvider_register S (Fulfilled response) b s; s' = snd (snd out)
   in fst out = Inr () \<and>
      fst (snd out) = snd (register S (Fulfilled response) b) \<and>
      user s' = data_user (data response) \<and>
      pushed s' = pushed s @ [''/dashboard''] \<and>
      error s' = None \<and> isLoading s' = False \<and>
      provided_isAuthenticated s' = truthy (data_user (data response)) \<and>
      provided_isAdmin s' = role_is_admin (data_user (data response)) \<and>
      (data_user (data response) \<noteq> JNull \<and> \<not> role_is_admin (data_user (data response)) \<longrightarrow>
         fst (AuthProvider_login S (Fulfilled response) r_logout b s)
           = Inl ''Access denied. Admin privileges required.'')"
proof -
  have r: "AuthProvider_register S (Fulfilled response) b s =
      (Inr (), snd (register S (Fulfilled response) b),
       s\<lparr>isLoading := True, error := None, user := data_user (data response),
          pushed := pushed s @ [''/dashboard''], isLoading := False\<rparr>)"
    by (simp add: AuthProvider_register_def register_def api_request_def Let_def)
  have l: "data_user (data response) \<noteq> JNull \<and> \<not> role_is_admin (data_user (data response)) \<longrightarrow>
      fst (AuthProvider_login S (Fulfilled response) r_logout b s) = Inl access_denied"
    by (simp add: AuthProvider_login_def login_def api_request_def Let_def logout_result
        role_is_admin_def)
  show ?thesis
    using l by (simp add: r Let_def provided_isAuthenticated_def provided_isAdmin_def
        access_denied_def)
qed

text \<open>The backend returns a customer to a registration and to a login.\<close>

theorem register_adopts_any_role_witness:
  "(let out = AuthProvider_register json_stringify (Fulfilled (sample_response sample_customer))
                empty_browser initial_state
    in sample_customer \<noteq> JNull \<and> \<not> role_is_admin sample_customer \<and>
       fst out = Inr () \<and> user (snd (snd out)) = sample_customer \<and>
       pushed (snd (snd out)) = [''/dashboard''] \<and>
       provided_isAuthenticated (snd (snd out)) \<and> \<not> provided_isAdmin (snd (snd out)) \<and>
       fst (AuthProvider_login json_stringify (Fulfilled (sample_response sample_customer))
              (Fulfilled ()) empty_browser initial_state)
         = Inl ''Access denied. Admin privileges required.'')"
proof -
  have h: "sample_customer \<noteq> JNull" "\<not> role_is_admin sample_customer" "truthy sample_customer"
    by (simp_all add: role_is_admin_def sample_customer_facts) (simp add: sample_customer_def)
  show ?thesis
    using h
      register_adopts_any_role [of json_stringify "sample_response sample_customer" empty_browser
        initial_state "Fulfilled ()"]
    by (simp add: Let_def sample_response_sel initial_state_def)
qed

section \<open>Further properties of login and token refresh\<close>

lemma cookies_login:
  "cookies (snd (login S (Fulfilled response) b)) =
     (cookies b)
       (TOKEN_KEY \<mapsto> \<lparr>content = data_token (data response), expires = 7, secure = True,
                         sameSite = ''strict''\<rparr>,
        REFRESH_TOKEN_KEY \<mapsto> \<lparr>content = data_refreshToken (data response), expires = 30,
                                 secure = True, sameSite = ''strict''\<rparr>,
        USER_KEY \<mapsto> \<lparr>content = S (data_user (data response)), expires = 7, secure = True,
                        sameSite = ''strict''\<rparr>)"
  by (simp add: login_def api_request_def setUser_def setRefreshToken_def setToken_def
      Cookies_set_def)

text \<open>
  X1. A fulfilled login whose user has role \<^verbatim>\<open>admin\<close>, with a non-empty access token and a
  user that \<^verbatim>\<open>JSON.parse\<close> reads back, succeeds: the context adopts the user and pushes
  \<^verbatim>\<open>/dashboard\<close>, all three store entries are written, and \<^verbatim>\<open>isAuthenticated()\<close> and
  \<^verbatim>\<open>isAdmin()\<close> are true.
\<close>

theorem admin_login_enters_authenticated:
  assumes "role_is_admin (data_user (data response))"
      and "data_token (data response) \<noteq> []"
      and "JSON_parse (JSON_stringify (data_user (data response))) = Some (data_user (data response))"
      and "JSON_stringify (data_user (data response)) \<noteq> []"
  shows "let out = AuthProvider_login JSON_stringify (Fulfilled response) r_logout b s;
             b' = fst (snd out); s' = snd (snd out)
         in fst out = Inr () \<and>
            user s' = data_user (data response) \<and>
            pushed s' = pushed s @ [''/dashboard''] \<and>
            error s' = None \<and> isLoading s' = False \<and>
            provided_isAuthenticated s' \<and> provided_isAdmin s' \<and>
            Cookies_get TOKEN_KEY (cookies b') = Some (data_token (data response)) \<and>
            Cookies_get REFRESH_TOKEN_KEY (cookies b') = Some (data_refreshToken (data response)) \<and>
            Cookies_get USER_KEY (cookies b') = Some (JSON_stringify (data_user (data response))) \<and>
            isAuthenticated JSON_parse b' \<and> isAdmin JSON_parse b'"
proof -
  let ?u = "data_user (data response)"
  have obj: "?u \<noteq> JNull" "truthy ?u"
    using assms(1) by (cases ?u; simp add: role_is_admin_def)+
  have l: "login JSON_stringify (Fulfilled response) b =
             (Inr response, snd (login JSON_stringify (Fulfilled response) b))"
    by (simp add: login_def api_request_def)
  have out: "AuthProvider_login JSON_stringify (Fulfilled response) r_logout b s =
      (Inr (), snd (login JSON_stringify (Fulfilled response) b),
       s\<lparr>isLoading := True, error := None, user := ?u,
          pushed := pushed s @ [''/dashboard''], isLoading := False\<rparr>)"
    using assms(1) obj(1) by (subst AuthProvider_login_def, subst l) (simp add: Let_def role_is_admin_def)
  have g: "getUser JSON_parse (snd (login JSON_stringify (Fulfilled response) b)) = ?u"
    using assms(3,4) by (simp add: getUser_def Cookies_get_def cookies_login)
  have t: "getToken (snd (login JSON_stringify (Fulfilled response) b)) = Some (data_token (data response))"
    using assms(2) by (simp add: getToken_def Cookies_get_def cookies_login or_null_def keys_distinct(1-6))
  show ?thesis
    using assms(1) obj g t
    by (simp add: out Let_def provided_isAuthenticated_def provided_isAdmin_def isAuthenticated_def
        isAdmin_def Cookies_get_def cookies_login keys_distinct(1-6))
qed

text \<open>An admin logs in on an empty store.\<close>

theorem admin_login_enters_authenticated_witness:
  "role_is_admin (data_user (data (sample_response sample_admin))) \<and>
   data_token (data (sample_response sample_admin)) \<noteq> [] \<and>
   (let out = AuthProvider_login json_stringify (Fulfilled (sample_response sample_admin))
                (Fulfilled ()) empty_browser initial_state
    in fst out = Inr () \<and> user (snd (snd out)) = sample_admin \<and>
       pushed (snd (snd out)) = [''/dashboard''] \<and>
       isAuthenticated json_parse (fst (snd out)) \<and> isAdmin json_parse (fst (snd out)))"
proof -
  have h1: "role_is_admin (data_user (data (sample_response sample_admin)))"
    by (simp add: sample_response_sel role_is_admin_def sample_admin_facts)
  have h2: "data_token (data (sample_response sample_admin)) \<noteq> []"
    by (simp add: sample_response_sel)
  have h3: "json_parse (json_stringify (data_user (data (sample_response sample_admin))))
              = Some (data_user (data (sample_response sample_admin)))"
    by (rule json_roundtrip)
  have h4: "json_stringify (data_user (data (sample_response sample_admin))) \<noteq> []"
    by (rule json_stringify_nonempty)
  show ?thesis
    using h1 h2
      admin_login_enters_authenticated
        [where JSON_parse = json_parse and JSON_stringify = json_stringify
           and response = "sample_response sample_admin" and r_logout = "Fulfilled ()"
           and b = empty_browser and s = initial_state, OF h1 h2 h3 h4]
    by (simp add: Let_def sample_response_sel initial_state_def)
qed

text \<open>
  X2. With a refresh token in the store and the refresh request fulfilled,
  \<^verbatim>\<open>refreshToken()\<close> returns the new access token and writes it; the refresh token, the
  user and the location stay as they were.
\<close>

theorem refresh_success_replaces_token_only:
  assumes "getRefreshToken b \<noteq> None"
  shows "fst (refreshToken (Fulfilled token) b) = Inr token \<and>
         snd (refreshToken (Fulfilled token) b) = setToken token b \<and>
         Cookies_get TOKEN_KEY (cookies (snd (refreshToken (Fulfilled token) b))) = Some token \<and>
         cookies (snd (refreshToken (Fulfilled token) b)) REFRESH_TOKEN_KEY = cookies b REFRESH_TOKEN_KEY \<and>
         cookies (snd (refreshToken (Fulfilled token) b)) USER_KEY = cookies b USER_KEY \<and>
         href (snd (refreshToken (Fulfilled token) b)) = href b"
proof -
  from assms obtain rt where "getRefreshToken b = Some rt" by auto
  then have "refreshToken (Fulfilled token) b = (Inr token, setToken token b)"
    by (simp add: refreshToken_def api_request_def)
  then show ?thesis
    by (simp add: setToken_def Cookies_get_def Cookies_set_def keys_distinct(1-6))
qed

text \<open>A signed-in admin refreshes the token.\<close>

theorem refresh_success_replaces_token_only_witness:
  "getRefreshToken (signed_in sample_admin) \<noteq> None \<and>
   fst (refreshToken (Fulfilled ''tok2'') (signed_in sample_admin)) = Inr ''tok2'' \<and>
   getToken (snd (refreshToken (Fulfilled ''tok2'') (signed_in sample_admin))) = Some ''tok2'' \<and>
   getRefreshToken (snd (refreshToken (Fulfilled ''tok2'') (signed_in sample_admin))) = Some ''ref''"
proof -
  have h: "getRefreshToken (signed_in sample_admin) \<noteq> None"
    by (simp add: getRefreshToken_def signed_in_cookies or_null_def)
  have r: "Cookies_get REFRESH_TOKEN_KEY (cookies (signed_in sample_admin)) = Some ''ref''"
    by (rule signed_in_cookies)
  have k: "getRefreshToken (setToken ''tok2'' (signed_in sample_admin)) = Some ''ref''"
    using r by (simp add: getRefreshToken_def setToken_def Cookies_get_after keys_distinct(1-6)
        or_null_def)
  have t: "getToken (setToken ''tok2'' (signed_in sample_admin)) = Some ''tok2''"
    by (simp add: getToken_def setToken_def Cookies_get_after or_null_def)
  show ?thesis
    using h k t refresh_success_replaces_token_only [OF h, of "''tok2''"]
    by simp
qed

text \<open>
  X3. When the backend rejects the login with a non-empty \<^verbatim>\<open>error\<close> message, the context's
  \<^verbatim>\<open>login\<close> fails with exactly that message and records it; the user held by the context
  and the navigation are unchanged, and unless the status is 401 so is the store.
\<close>

theorem failed_login_surfaces_backend_message:
  assumes "msg \<noteq> []"
  shows "let out = AuthProvider_login JSON_stringify (Rejected (ErrorResponse st (Some msg)))
                     r_logout b s
         in fst out = Inl msg \<and>
            error (snd (snd out)) = Some msg \<and>
            user (snd (snd out)) = user s \<and> pushed (snd (snd out)) = pushed s \<and>
            isLoading (snd (snd out)) = False \<and>
            (st \<noteq> 401 \<longrightarrow> fst (snd out) = b)"
  using assms
  by (simp add: AuthProvider_login_def login_def api_request_def Let_def cookies_interceptor)

text \<open>The backend answers 400 with \<^verbatim>\<open>Invalid credentials\<close> to a login on an empty store.\<close>

theorem failed_login_surfaces_backend_message_witness:
  "''Invalid credentials'' \<noteq> [] \<and> (400::nat) \<noteq> 401 \<and>
   (let out = AuthProvider_login json_stringify
                (Rejected (ErrorResponse 400 (Some ''Invalid credentials'')))
                (Fulfilled ()) empty_browser initial_state
    in fst out = Inl ''Invalid credentials'' \<and>
       error (snd (snd out)) = Some ''Invalid credentials'' \<and>
       user (snd (snd out)) = JNull \<and> \<not> provided_isAuthenticated (snd (snd out)) \<and>
       fst (snd out) = empty_browser)"
  using failed_login_surfaces_backend_message
    [of "''Invalid credentials''" json_stringify 400 "Fulfilled ()" empty_browser initial_state]
  by (simp add: Let_def initial_state_def provided_isAuthenticated_def)

end
